theory Spec2Isabelle
  imports Complex_Main "HOL-Library.AList" "HOL-Library.Sublist"
begin

section \<open>JavaScript values used by the permission engine\<close>

text \<open>
  The engine is TypeScript running as JavaScript. Strings are modelled as \<open>string\<close>;
  every string of the catalog and of the engine's tables is ASCII (\<open>isAscii\<close> below).
  The case conversions below are \<open>toLowerCase\<close> and \<open>toUpperCase\<close> on ASCII strings:
  they fold the letters A to Z and a to z and nothing else. On a string with a
  character outside ASCII the JavaScript functions also fold other letters, so there
  the model is not the code; what is proved below about case folding is proved for
  ASCII strings, and the strings folded in it are shown to be ASCII.
  A \<open>Set\<close> is the list of its members in insertion order, a plain object used as
  \<open>Record<string, T>\<close> is the association list of its own properties in creation
  order.
\<close>

definition upperLetters :: string where
  "upperLetters = ''ABCDEFGHIJKLMNOPQRSTUVWXYZ''"

definition lowerLetters :: string where
  "lowerLetters = ''abcdefghijklmnopqrstuvwxyz''"

definition toLowerCaseChar :: "char \<Rightarrow> char" where
  "toLowerCaseChar c = (case map_of (zip upperLetters lowerLetters) c of Some l \<Rightarrow> l | None \<Rightarrow> c)"

definition toUpperCaseChar :: "char \<Rightarrow> char" where
  "toUpperCaseChar c = (case map_of (zip lowerLetters upperLetters) c of Some u \<Rightarrow> u | None \<Rightarrow> c)"

definition isAscii :: "string \<Rightarrow> bool" where
  "isAscii s = list_all (\<lambda>c. \<not> digit7 c) s"

definition toLowerCase :: "string \<Rightarrow> string" where
  "toLowerCase s = map toLowerCaseChar s"

definition toUpperCase :: "string \<Rightarrow> string" where
  "toUpperCase s = map toUpperCaseChar s"

text \<open>\<open>s.includes(sub)\<close>: \<open>sub\<close> occurs in \<open>s\<close> as a contiguous substring.\<close>

fun includes_str :: "string \<Rightarrow> string \<Rightarrow> bool" where
  "includes_str [] sub = (sub = [])"
| "includes_str (c # cs) sub = (prefix sub (c # cs) \<or> includes_str cs sub)"

text \<open>\<open>s.split(sep)\<close> at a one-character separator, and \<open>parts.join(sep)\<close>.\<close>

fun split :: "char \<Rightarrow> string \<Rightarrow> string list" where
  "split sep [] = [[]]"
| "split sep (c # cs) =
     (if c = sep then [] # split sep cs
      else (case split sep cs of [] \<Rightarrow> [[c]] | w # ws \<Rightarrow> (c # w) # ws))"

fun join :: "string \<Rightarrow> string list \<Rightarrow> string" where
  "join sep [] = []"
| "join sep [w] = w"
| "join sep (w # v # ws) = w @ sep @ join sep (v # ws)"

text \<open>The decimal text of a non-negative integer, as a template literal prints it.\<close>

definition digitChar :: "nat \<Rightarrow> char" where
  "digitChar d = ''0123456789'' ! d"

fun showNat :: "nat \<Rightarrow> string" where
  "showNat n = (if n < 10 then [digitChar n] else showNat (n div 10) @ [digitChar (n mod 10)])"

declare showNat.simps [simp del]

definition showBool :: "bool \<Rightarrow> string" where
  "showBool b = (if b then ''true'' else ''false'')"

text \<open>
  \<open>Math.round\<close> rounds to the nearest integer, a tie going up. The engine applies it
  to products of an integer with the literals \<open>0.2\<close>, \<open>0.3\<close>, and to a percentage.
  The model computes these products in exact rational arithmetic. For \<open>n * 0.2\<close>
  and \<open>n * 0.3\<close> with an integer \<open>n\<close> of the size of a permission count the double
  product lies within half a unit in the last place of the exact product, which is
  either itself a double (every tie is) or at least a tenth away from a tie, so both
  round to the same integer. The comparison \<open>writeCount / length > 0.7\<close> agrees with
  the exact one for the same reason. The percentage \<open>Math.round(writeRatio * 100)\<close>
  is text of one factor's description only; only there the double product can fall on
  the other side of a tie than the exact value does.
\<close>

definition Math_round :: "rat \<Rightarrow> int" where
  "Math_round x = \<lfloor>x + 1 / 2\<rfloor>"

text \<open>
  Property lookup \<open>obj[key]\<close> on a plain object finds an own property first and then
  the members every object inherits from \<open>Object.prototype\<close>. An inherited member is
  a function (or, for \<open>__proto__\<close>, the prototype object): it is truthy, it is not a
  string, and it has neither \<open>push\<close> nor \<open>add\<close>, so calling one of these on it throws
  a \<open>TypeError\<close>.
\<close>

datatype error = TypeError

datatype 'a property = Undefined | Own 'a | Inherited

definition objectPrototypeKeys :: "string list" where
  "objectPrototypeKeys =
    [''constructor'', ''hasOwnProperty'', ''isPrototypeOf'', ''propertyIsEnumerable'',
     ''toLocaleString'', ''toString'', ''valueOf'', ''__proto__'',
     ''__defineGetter__'', ''__defineSetter__'', ''__lookupGetter__'', ''__lookupSetter__'']"

definition getProperty :: "(string \<times> 'a) list \<Rightarrow> string \<Rightarrow> 'a property" where
  "getProperty obj key =
     (case map_of obj key of
        Some v \<Rightarrow> Own v
      | None \<Rightarrow> if key \<in> set objectPrototypeKeys then Inherited else Undefined)"

text \<open>Truthiness of a looked-up string: a non-empty own string or an inherited member.\<close>

fun truthy :: "string property \<Rightarrow> bool" where
  "truthy Undefined = False"
| "truthy (Own v) = (v \<noteq> [])"
| "truthy Inherited = True"

text \<open>\<open>new Set(xs)\<close> and \<open>set.add(x)\<close>: members in order of first insertion.\<close>

definition setAdd :: "'a list \<Rightarrow> 'a \<Rightarrow> 'a list" where
  "setAdd s x = (if x \<in> set s then s else s @ [x])"

definition newSet :: "'a list \<Rightarrow> 'a list" where
  "newSet xs = foldl setAdd [] xs"

section \<open>Data model\<close>

record Permission =
  apiName :: string
  displayName :: string
  description :: string
  productCategory :: string
  taskCategories :: "string list"
  actions :: string
  operationType :: string
  riskLevel :: string
  hasPII :: bool
  hasFinancialData :: bool
  hasPaymentCredentials :: bool
  roleAccess :: "(string \<times> string) list"

subsection \<open>Display names\<close>

definition acronyms :: "string list" where
  "acronyms = [''kyc'', ''pii'', ''api'', ''pos'', ''id'']"

definition capitalize :: "string \<Rightarrow> string" where
  "capitalize word = (case word of [] \<Rightarrow> [] | c # cs \<Rightarrow> toUpperCaseChar c # cs)"

definition toDisplayName :: "string \<Rightarrow> string" where
  "toDisplayName name =
     join '' '' (map (\<lambda>word. if toLowerCase word \<in> set acronyms then toUpperCase word
                               else capitalize word) (split (CHR ''_'') name))"

definition HUMAN_FRIENDLY_NAMES :: "(string \<times> string) list" where
  "HUMAN_FRIENDLY_NAMES =
    [(''account_admin_management_operations'', ''Account Administration''),
     (''account_operations'', ''Account Management''),
     (''accounts_kyc_basic'', ''Basic Identity Verification''),
     (''application_fee_operations'', ''Application Fees''),
     (''connect_settings'', ''Connect Platform Settings''),
     (''connected_account_operations'', ''Connected Account Management''),
     (''embeddable_key_admin'', ''Embedded Payment Keys''),
     (''sandbox_creation'', ''Sandbox Creation''),
     (''team_management'', ''Team & Role Management''),
     (''sensitive_resources'', ''API Keys & Secrets''),
     (''billing_operations'', ''Billing & Usage Metering''),
     (''billing_settings_operations'', ''Billing Settings & Profiles''),
     (''credit_note_operations'', ''Credit Notes''),
     (''invoice_operations'', ''Invoices & Quotes''),
     (''subscription_operations'', ''Subscriptions''),
     (''capital_operations'', ''Capital Financing''),
     (''treasury_operations'', ''Treasury Accounts''),
     (''identity_verification_operations'', ''Identity Verification''),
     (''climate_operations'', ''Climate Orders''),
     (''crypto_operations'', ''Crypto Accounts''),
     (''customer_operations'', ''Customer Profiles''),
     (''customer_portal_operations'', ''Customer Portal''),
     (''dispute_operations'', ''Disputes''),
     (''radar_operations'', ''Fraud Prevention Rules''),
     (''review_operations'', ''Fraud Reviews''),
     (''balance_operations'', ''Account Balance''),
     (''balance_transfer_operations'', ''Balance Transfers''),
     (''payout_operations'', ''Payouts''),
     (''transfer_operations'', ''Transfers''),
     (''data_export_operations'', ''Data Export''),
     (''dev_integration'', ''Developer Tools''),
     (''reporting_operations'', ''Financial Reports''),
     (''stripe_apps_development'', ''Stripe Apps Development''),
     (''issuing_card_operations'', ''Issuing Cards''),
     (''charge'', ''Charges (Read Only)''),
     (''charge_operations'', ''Charges & Refunds''),
     (''payment_intent'', ''Payment Intents (Read Only)''),
     (''payment_intent_operations'', ''Payment Intents''),
     (''payment_processing'', ''Payment Methods''),
     (''checkout_operations'', ''Checkout Sessions''),
     (''order_operations'', ''Orders''),
     (''order_refund_operations'', ''Order Refunds''),
     (''product_operations'', ''Products & Pricing''),
     (''promotion_operations'', ''Promotions & Coupons''),
     (''dashboard_baseline'', ''Dashboard Access (Basic)''),
     (''settings_security'', ''Security Settings''),
     (''tax_automation_operations'', ''Tax Automation''),
     (''tax_filing_operations'', ''Tax Filing''),
     (''terminal_infrastructure'', ''Terminal Hardware (View)''),
     (''terminal_operations'', ''Terminal Point of Sale'')]"

text \<open>
  \<open>HUMAN_FRIENDLY_NAMES[apiName] ?? toDisplayName(apiName)\<close>: the table's keys are
  fixed and none of them is an inherited member's name; for a name outside the table
  the lookup of an inherited name is not modelled (the catalog asks for table names only).
\<close>

definition getPermissionDisplayName :: "string \<Rightarrow> string" where
  "getPermissionDisplayName name =
     (case map_of HUMAN_FRIENDLY_NAMES name of Some n \<Rightarrow> n | None \<Rightarrow> toDisplayName name)"

subsection \<open>The permission catalog\<close>

definition account_admin_management_operations :: Permission where
  "account_admin_management_operations =
    \<lparr>apiName = ''account_admin_management_operations'',
     displayName = getPermissionDisplayName ''account_admin_management_operations'',
     description = ''Administrative account operations (does not include team member management)'',
     productCategory = ''Account & Connect'',
     taskCategories = [''Configure settings''],
     actions = ''write'',
     operationType = ''Write'',
     riskLevel = ''Critical'',
     hasPII = False,
     hasFinancialData = False,
     hasPaymentCredentials = False,
     roleAccess = [(''super_admin'', ''write''), (''admin'', ''write''), (''developer'', ''write'')]\<rparr>"

definition account_operations :: Permission where
  "account_operations =
    \<lparr>apiName = ''account_operations'',
     displayName = getPermissionDisplayName ''account_operations'',
     description = ''Read access to base account details'',
     productCategory = ''Account & Connect'',
     taskCategories = [''Configure settings'', ''Monitor platform''],
     actions = ''read, write'',
     operationType = ''Read + Write'',
     riskLevel = ''Standard'',
     hasPII = False,
     hasFinancialData = False,
     hasPaymentCredentials = False,
     roleAccess = [(''super_admin'', ''write''), (''admin'', ''write''), (''view_only'', ''read''), (''support'', ''write''), (''support_associate'', ''write''), (''analyst'', ''read''), (''refund_analyst'', ''read''), (''sandbox_admin'', ''read'')]\<rparr>"

definition accounts_kyc_basic :: Permission where
  "accounts_kyc_basic =
    \<lparr>apiName = ''accounts_kyc_basic'',
     displayName = getPermissionDisplayName ''accounts_kyc_basic'',
     description = ''Read access to basic KYC fields'',
     productCategory = ''Account & Connect'',
     taskCategories = [''Verify identity'', ''Handle customer issues''],
     actions = ''read'',
     operationType = ''Read-only'',
     riskLevel = ''Standard'',
     hasPII = True,
     hasFinancialData = False,
     hasPaymentCredentials = False,
     roleAccess = [(''super_admin'', ''read''), (''admin'', ''read''), (''view_only'', ''read''), (''identity_analyst'', ''read'')]\<rparr>"

definition application_fee_operations :: Permission where
  "application_fee_operations =
    \<lparr>apiName = ''application_fee_operations'',
     displayName = getPermissionDisplayName ''application_fee_operations'',
     description = ''Application fees for platforms'',
     productCategory = ''Account & Connect'',
     taskCategories = [''Monitor platform'', ''Export & analyze data''],
     actions = ''read, write'',
     operationType = ''Read + Write'',
     riskLevel = ''Standard'',
     hasPII = False,
     hasFinancialData = True,
     hasPaymentCredentials = False,
     roleAccess = [(''super_admin'', ''write''), (''admin'', ''write''), (''view_only'', ''read''), (''support'', ''write''), (''analyst'', ''write'')]\<rparr>"

definition connect_settings :: Permission where
  "connect_settings =
    \<lparr>apiName = ''connect_settings'',
     displayName = getPermissionDisplayName ''connect_settings'',
     description = ''Manage Connect settings'',
     productCategory = ''Account & Connect'',
     taskCategories = [''Configure settings'', ''Monitor platform''],
     actions = ''write'',
     operationType = ''Write'',
     riskLevel = ''Elevated'',
     hasPII = False,
     hasFinancialData = False,
     hasPaymentCredentials = False,
     roleAccess = [(''super_admin'', ''write''), (''admin'', ''write''), (''support'', ''write''), (''support_associate'', ''write'')]\<rparr>"

definition connected_account_operations :: Permission where
  "connected_account_operations =
    \<lparr>apiName = ''connected_account_operations'',
     displayName = getPermissionDisplayName ''connected_account_operations'',
     description = ''Connected accounts management'',
     productCategory = ''Account & Connect'',
     taskCategories = [''Monitor platform'', ''Handle customer issues''],
     actions = ''read, write'',
     operationType = ''Read + Write'',
     riskLevel = ''Standard'',
     hasPII = True,
     hasFinancialData = False,
     hasPaymentCredentials = False,
     roleAccess = [(''super_admin'', ''write''), (''admin'', ''write''), (''view_only'', ''read''), (''developer'', ''write''), (''support'', ''write''), (''support_associate'', ''write''), (''analyst'', ''read'')]\<rparr>"

definition embeddable_key_admin :: Permission where
  "embeddable_key_admin =
    \<lparr>apiName = ''embeddable_key_admin'',
     displayName = getPermissionDisplayName ''embeddable_key_admin'',
     description = ''Embeddable keys admin'',
     productCategory = ''Account & Connect'',
     taskCategories = [''Configure settings'', ''Develop & integrate''],
     actions = ''write'',
     operationType = ''Write'',
     riskLevel = ''Elevated'',
     hasPII = False,
     hasFinancialData = False,
     hasPaymentCredentials = True,
     roleAccess = [(''super_admin'', ''write''), (''admin'', ''write'')]\<rparr>"

definition sandbox_creation :: Permission where
  "sandbox_creation =
    \<lparr>apiName = ''sandbox_creation'',
     displayName = getPermissionDisplayName ''sandbox_creation'',
     description = ''Create sandbox organizations'',
     productCategory = ''Account & Connect'',
     taskCategories = [''Develop & integrate''],
     actions = ''write'',
     operationType = ''Write'',
     riskLevel = ''Standard'',
     hasPII = False,
     hasFinancialData = False,
     hasPaymentCredentials = False,
     roleAccess = [(''super_admin'', ''write''), (''admin'', ''write''), (''developer'', ''write''), (''sandbox_admin'', ''write'')]\<rparr>"

definition team_management :: Permission where
  "team_management =
    \<lparr>apiName = ''team_management'',
     displayName = getPermissionDisplayName ''team_management'',
     description = ''Invite, remove, and change roles for team members'',
     productCategory = ''Account & Connect'',
     taskCategories = [''Manage team access''],
     actions = ''read, write'',
     operationType = ''Read + Write'',
     riskLevel = ''Elevated'',
     hasPII = False,
     hasFinancialData = False,
     hasPaymentCredentials = False,
     roleAccess = [(''super_admin'', ''write''), (''admin'', ''write''), (''view_only'', ''read''), (''iam_admin'', ''write'')]\<rparr>"

definition sensitive_resources :: Permission where
  "sensitive_resources =
    \<lparr>apiName = ''sensitive_resources'',
     displayName = getPermissionDisplayName ''sensitive_resources'',
     description = ''API keys and secrets'',
     productCategory = ''Admin'',
     taskCategories = [''Develop & integrate'', ''Configure settings''],
     actions = ''read'',
     operationType = ''Read-only'',
     riskLevel = ''Standard'',
     hasPII = False,
     hasFinancialData = False,
     hasPaymentCredentials = True,
     roleAccess = [(''super_admin'', ''read''), (''admin'', ''read''), (''view_only'', ''read''), (''developer'', ''read'')]\<rparr>"

definition billing_operations :: Permission where
  "billing_operations =
    \<lparr>apiName = ''billing_operations'',
     displayName = getPermissionDisplayName ''billing_operations'',
     description = ''Billing meters and bills'',
     productCategory = ''Billing & Subscriptions'',
     taskCategories = [''Manage billing'', ''Export & analyze data''],
     actions = ''read, write'',
     operationType = ''Read + Write'',
     riskLevel = ''Standard'',
     hasPII = False,
     hasFinancialData = True,
     hasPaymentCredentials = False,
     roleAccess = [(''super_admin'', ''write''), (''admin'', ''write''), (''view_only'', ''read''), (''developer'', ''write''), (''analyst'', ''write'')]\<rparr>"

definition billing_settings_operations :: Permission where
  "billing_settings_operations =
    \<lparr>apiName = ''billing_settings_operations'',
     displayName = getPermissionDisplayName ''billing_settings_operations'',
     description = ''Billing settings and profiles'',
     productCategory = ''Billing & Subscriptions'',
     taskCategories = [''Configure settings'', ''Manage billing''],
     actions = ''read, write'',
     operationType = ''Read + Write'',
     riskLevel = ''Elevated'',
     hasPII = False,
     hasFinancialData = False,
     hasPaymentCredentials = False,
     roleAccess = [(''super_admin'', ''write''), (''admin'', ''write''), (''view_only'', ''read''), (''developer'', ''write''), (''support'', ''write''), (''support_associate'', ''write''), (''analyst'', ''write''), (''refund_analyst'', ''read''), (''dispute_analyst'', ''read'')]\<rparr>"

definition credit_note_operations :: Permission where
  "credit_note_operations =
    \<lparr>apiName = ''credit_note_operations'',
     displayName = getPermissionDisplayName ''credit_note_operations'',
     description = ''Manage credit notes'',
     productCategory = ''Billing & Subscriptions'',
     taskCategories = [''Handle customer issues'', ''Manage billing''],
     actions = ''read, write'',
     operationType = ''Read + Write'',
     riskLevel = ''Standard'',
     hasPII = False,
     hasFinancialData = True,
     hasPaymentCredentials = False,
     roleAccess = [(''super_admin'', ''write''), (''admin'', ''write''), (''view_only'', ''read''), (''developer'', ''write''), (''support'', ''write''), (''support_associate'', ''write''), (''analyst'', ''write''), (''refund_analyst'', ''write'')]\<rparr>"

definition invoice_operations :: Permission where
  "invoice_operations =
    \<lparr>apiName = ''invoice_operations'',
     displayName = getPermissionDisplayName ''invoice_operations'',
     description = ''Manage invoices and quotes'',
     productCategory = ''Billing & Subscriptions'',
     taskCategories = [''Handle customer issues'', ''Manage billing'', ''Export & analyze data''],
     actions = ''read, write'',
     operationType = ''Read + Write'',
     riskLevel = ''Standard'',
     hasPII = False,
     hasFinancialData = True,
     hasPaymentCredentials = False,
     roleAccess = [(''super_admin'', ''write''), (''admin'', ''write''), (''view_only'', ''read''), (''developer'', ''write''), (''support'', ''write''), (''support_associate'', ''write''), (''analyst'', ''write''), (''refund_analyst'', ''read''), (''dispute_analyst'', ''read'')]\<rparr>"

definition subscription_operations :: Permission where
  "subscription_operations =
    \<lparr>apiName = ''subscription_operations'',
     displayName = getPermissionDisplayName ''subscription_operations'',
     description = ''Manage subscriptions'',
     productCategory = ''Billing & Subscriptions'',
     taskCategories = [''Handle customer issues'', ''Manage billing''],
     actions = ''read, write'',
     operationType = ''Read + Write'',
     riskLevel = ''Standard'',
     hasPII = False,
     hasFinancialData = True,
     hasPaymentCredentials = False,
     roleAccess = [(''super_admin'', ''write''), (''admin'', ''write''), (''view_only'', ''read''), (''developer'', ''write''), (''support'', ''write''), (''support_associate'', ''write''), (''analyst'', ''write''), (''refund_analyst'', ''read''), (''dispute_analyst'', ''read'')]\<rparr>"

definition capital_operations :: Permission where
  "capital_operations =
    \<lparr>apiName = ''capital_operations'',
     displayName = getPermissionDisplayName ''capital_operations'',
     description = ''Capital for Platforms'',
     productCategory = ''Capital & Treasury'',
     taskCategories = [''Monitor financials'', ''Export & analyze data''],
     actions = ''read, write'',
     operationType = ''Read + Write'',
     riskLevel = ''Standard'',
     hasPII = False,
     hasFinancialData = True,
     hasPaymentCredentials = False,
     roleAccess = [(''super_admin'', ''write''), (''admin'', ''write''), (''view_only'', ''read''), (''developer'', ''write''), (''analyst'', ''write'')]\<rparr>"

definition treasury_operations :: Permission where
  "treasury_operations =
    \<lparr>apiName = ''treasury_operations'',
     displayName = getPermissionDisplayName ''treasury_operations'',
     description = ''Treasury financial accounts'',
     productCategory = ''Capital & Treasury'',
     taskCategories = [''Monitor financials'', ''Export & analyze data''],
     actions = ''read, write'',
     operationType = ''Read + Write'',
     riskLevel = ''Standard'',
     hasPII = False,
     hasFinancialData = True,
     hasPaymentCredentials = False,
     roleAccess = [(''super_admin'', ''write''), (''admin'', ''write''), (''view_only'', ''read''), (''analyst'', ''read'')]\<rparr>"

definition identity_verification_operations :: Permission where
  "identity_verification_operations =
    \<lparr>apiName = ''identity_verification_operations'',
     displayName = getPermissionDisplayName ''identity_verification_operations'',
     description = ''Identity verification'',
     productCategory = ''Compliance & Identity'',
     taskCategories = [''Verify identity'', ''Handle customer issues''],
     actions = ''read, write'',
     operationType = ''Read + Write'',
     riskLevel = ''Standard'',
     hasPII = True,
     hasFinancialData = False,
     hasPaymentCredentials = False,
     roleAccess = [(''super_admin'', ''write''), (''admin'', ''write''), (''view_only'', ''read''), (''developer'', ''write''), (''analyst'', ''write''), (''identity_analyst'', ''write'')]\<rparr>"

definition climate_operations :: Permission where
  "climate_operations =
    \<lparr>apiName = ''climate_operations'',
     displayName = getPermissionDisplayName ''climate_operations'',
     description = ''Climate orders'',
     productCategory = ''Crypto & Climate'',
     taskCategories = [''Process transactions'', ''Configure settings''],
     actions = ''read, write'',
     operationType = ''Read + Write'',
     riskLevel = ''Standard'',
     hasPII = False,
     hasFinancialData = False,
     hasPaymentCredentials = False,
     roleAccess = [(''super_admin'', ''write''), (''admin'', ''write''), (''view_only'', ''read''), (''developer'', ''write''), (''analyst'', ''write'')]\<rparr>"

definition crypto_operations :: Permission where
  "crypto_operations =
    \<lparr>apiName = ''crypto_operations'',
     displayName = getPermissionDisplayName ''crypto_operations'',
     description = ''Crypto financial accounts'',
     productCategory = ''Crypto & Climate'',
     taskCategories = [''Process transactions''],
     actions = ''read, write'',
     operationType = ''Read + Write'',
     riskLevel = ''Standard'',
     hasPII = False,
     hasFinancialData = False,
     hasPaymentCredentials = False,
     roleAccess = [(''super_admin'', ''write''), (''admin'', ''write''), (''view_only'', ''read''), (''developer'', ''write''), (''analyst'', ''write'')]\<rparr>"

definition customer_operations :: Permission where
  "customer_operations =
    \<lparr>apiName = ''customer_operations'',
     displayName = getPermissionDisplayName ''customer_operations'',
     description = ''Manage customer profiles'',
     productCategory = ''Customers'',
     taskCategories = [''Handle customer issues'', ''Export & analyze data''],
     actions = ''read, write'',
     operationType = ''Read + Write'',
     riskLevel = ''Standard'',
     hasPII = True,
     hasFinancialData = False,
     hasPaymentCredentials = False,
     roleAccess = [(''super_admin'', ''write''), (''admin'', ''write''), (''view_only'', ''read''), (''developer'', ''write''), (''support'', ''write''), (''support_associate'', ''write''), (''analyst'', ''write''), (''refund_analyst'', ''read''), (''dispute_analyst'', ''read'')]\<rparr>"

definition customer_portal_operations :: Permission where
  "customer_portal_operations =
    \<lparr>apiName = ''customer_portal_operations'',
     displayName = getPermissionDisplayName ''customer_portal_operations'',
     description = ''Create customer portals'',
     productCategory = ''Customers'',
     taskCategories = [''Configure settings'', ''Handle customer issues''],
     actions = ''write'',
     operationType = ''Write'',
     riskLevel = ''Standard'',
     hasPII = False,
     hasFinancialData = False,
     hasPaymentCredentials = False,
     roleAccess = [(''super_admin'', ''write''), (''admin'', ''write''), (''analyst'', ''write'')]\<rparr>"

definition dispute_operations :: Permission where
  "dispute_operations =
    \<lparr>apiName = ''dispute_operations'',
     displayName = getPermissionDisplayName ''dispute_operations'',
     description = ''Manage disputes'',
     productCategory = ''Disputes & Fraud Prevention'',
     taskCategories = [''Handle customer issues'', ''Manage disputes & fraud''],
     actions = ''read, write'',
     operationType = ''Read + Write'',
     riskLevel = ''Standard'',
     hasPII = False,
     hasFinancialData = False,
     hasPaymentCredentials = False,
     roleAccess = [(''super_admin'', ''write''), (''admin'', ''write''), (''view_only'', ''read''), (''developer'', ''write''), (''support'', ''write''), (''support_associate'', ''write''), (''analyst'', ''write''), (''refund_analyst'', ''read''), (''dispute_analyst'', ''write'')]\<rparr>"

definition radar_operations :: Permission where
  "radar_operations =
    \<lparr>apiName = ''radar_operations'',
     displayName = getPermissionDisplayName ''radar_operations'',
     description = ''Configure Radar fraud rules'',
     productCategory = ''Disputes & Fraud Prevention'',
     taskCategories = [''Configure settings'', ''Manage disputes & fraud''],
     actions = ''read, write'',
     operationType = ''Read + Write'',
     riskLevel = ''Standard'',
     hasPII = False,
     hasFinancialData = False,
     hasPaymentCredentials = False,
     roleAccess = [(''super_admin'', ''write''), (''admin'', ''write''), (''view_only'', ''read''), (''developer'', ''write''), (''support'', ''read''), (''support_associate'', ''read''), (''analyst'', ''read''), (''refund_analyst'', ''read'')]\<rparr>"

definition review_operations :: Permission where
  "review_operations =
    \<lparr>apiName = ''review_operations'',
     displayName = getPermissionDisplayName ''review_operations'',
     description = ''Action fraud reviews'',
     productCategory = ''Disputes & Fraud Prevention'',
     taskCategories = [''Handle customer issues'', ''Manage disputes & fraud''],
     actions = ''write'',
     operationType = ''Write'',
     riskLevel = ''Standard'',
     hasPII = False,
     hasFinancialData = False,
     hasPaymentCredentials = False,
     roleAccess = [(''super_admin'', ''write''), (''admin'', ''write''), (''support'', ''write''), (''support_associate'', ''write''), (''analyst'', ''write'')]\<rparr>"

definition balance_operations :: Permission where
  "balance_operations =
    \<lparr>apiName = ''balance_operations'',
     displayName = getPermissionDisplayName ''balance_operations'',
     description = ''View account balances'',
     productCategory = ''Financial Operations'',
     taskCategories = [''Monitor financials'', ''Export & analyze data''],
     actions = ''read'',
     operationType = ''Read-only'',
     riskLevel = ''Standard'',
     hasPII = False,
     hasFinancialData = True,
     hasPaymentCredentials = False,
     roleAccess = [(''super_admin'', ''read''), (''admin'', ''read''), (''view_only'', ''read''), (''support'', ''read''), (''support_associate'', ''read''), (''analyst'', ''read''), (''refund_analyst'', ''read''), (''dispute_analyst'', ''read'')]\<rparr>"

definition balance_transfer_operations :: Permission where
  "balance_transfer_operations =
    \<lparr>apiName = ''balance_transfer_operations'',
     displayName = getPermissionDisplayName ''balance_transfer_operations'',
     description = ''Transfer balances (high risk)'',
     productCategory = ''Financial Operations'',
     taskCategories = [''Transfer funds''],
     actions = ''write'',
     operationType = ''Write'',
     riskLevel = ''Critical'',
     hasPII = False,
     hasFinancialData = True,
     hasPaymentCredentials = False,
     roleAccess = [(''super_admin'', ''write''), (''admin'', ''write''), (''analyst'', ''write'')]\<rparr>"

definition payout_operations :: Permission where
  "payout_operations =
    \<lparr>apiName = ''payout_operations'',
     displayName = getPermissionDisplayName ''payout_operations'',
     description = ''Manage payouts'',
     productCategory = ''Financial Operations'',
     taskCategories = [''Transfer funds'', ''Monitor financials''],
     actions = ''read, write'',
     operationType = ''Read + Write'',
     riskLevel = ''Standard'',
     hasPII = False,
     hasFinancialData = True,
     hasPaymentCredentials = False,
     roleAccess = [(''super_admin'', ''write''), (''admin'', ''write''), (''view_only'', ''read''), (''analyst'', ''write'')]\<rparr>"

definition transfer_operations :: Permission where
  "transfer_operations =
    \<lparr>apiName = ''transfer_operations'',
     displayName = getPermissionDisplayName ''transfer_operations'',
     description = ''Transfer operations'',
     productCategory = ''Financial Operations'',
     taskCategories = [''Transfer funds'', ''Monitor financials''],
     actions = ''read, write'',
     operationType = ''Read + Write'',
     riskLevel = ''Standard'',
     hasPII = False,
     hasFinancialData = True,
     hasPaymentCredentials = False,
     roleAccess = [(''super_admin'', ''write''), (''admin'', ''write''), (''view_only'', ''read''), (''analyst'', ''write'')]\<rparr>"

definition data_export_operations :: Permission where
  "data_export_operations =
    \<lparr>apiName = ''data_export_operations'',
     displayName = getPermissionDisplayName ''data_export_operations'',
     description = ''Export bulk data'',
     productCategory = ''Integrations & Data'',
     taskCategories = [''Export & analyze data''],
     actions = ''read'',
     operationType = ''Read-only'',
     riskLevel = ''Standard'',
     hasPII = True,
     hasFinancialData = True,
     hasPaymentCredentials = False,
     roleAccess = [(''super_admin'', ''read''), (''admin'', ''read''), (''view_only'', ''read''), (''developer'', ''read''), (''analyst'', ''read'')]\<rparr>"

definition dev_integration :: Permission where
  "dev_integration =
    \<lparr>apiName = ''dev_integration'',
     displayName = getPermissionDisplayName ''dev_integration'',
     description = ''Development tools'',
     productCategory = ''Integrations & Data'',
     taskCategories = [''Develop & integrate''],
     actions = ''read, write'',
     operationType = ''Read + Write'',
     riskLevel = ''Standard'',
     hasPII = False,
     hasFinancialData = False,
     hasPaymentCredentials = False,
     roleAccess = [(''super_admin'', ''write''), (''admin'', ''write''), (''view_only'', ''read''), (''developer'', ''write''), (''analyst'', ''write'')]\<rparr>"

definition reporting_operations :: Permission where
  "reporting_operations =
    \<lparr>apiName = ''reporting_operations'',
     displayName = getPermissionDisplayName ''reporting_operations'',
     description = ''Run and access reports'',
     productCategory = ''Integrations & Data'',
     taskCategories = [''Export & analyze data'', ''Monitor financials''],
     actions = ''read, write'',
     operationType = ''Read + Write'',
     riskLevel = ''Standard'',
     hasPII = False,
     hasFinancialData = True,
     hasPaymentCredentials = False,
     roleAccess = [(''super_admin'', ''write''), (''admin'', ''write''), (''view_only'', ''read, write''), (''developer'', ''write''), (''support'', ''write''), (''support_associate'', ''write''), (''analyst'', ''write''), (''refund_analyst'', ''read'')]\<rparr>"

definition stripe_apps_development :: Permission where
  "stripe_apps_development =
    \<lparr>apiName = ''stripe_apps_development'',
     displayName = getPermissionDisplayName ''stripe_apps_development'',
     description = ''Build Stripe Apps'',
     productCategory = ''Integrations & Data'',
     taskCategories = [''Develop & integrate''],
     actions = ''read, write'',
     operationType = ''Read + Write'',
     riskLevel = ''Standard'',
     hasPII = False,
     hasFinancialData = False,
     hasPaymentCredentials = False,
     roleAccess = [(''super_admin'', ''write''), (''admin'', ''write''), (''view_only'', ''read''), (''developer'', ''write''), (''analyst'', ''write'')]\<rparr>"

definition issuing_card_operations :: Permission where
  "issuing_card_operations =
    \<lparr>apiName = ''issuing_card_operations'',
     displayName = getPermissionDisplayName ''issuing_card_operations'',
     description = ''Manage issuing cards'',
     productCategory = ''Issuing & Cards'',
     taskCategories = [''Handle customer issues'', ''Manage cards''],
     actions = ''read, write'',
     operationType = ''Read + Write'',
     riskLevel = ''Standard'',
     hasPII = False,
     hasFinancialData = False,
     hasPaymentCredentials = True,
     roleAccess = [(''super_admin'', ''write''), (''admin'', ''write''), (''view_only'', ''read''), (''support'', ''write''), (''support_associate'', ''read, write''), (''analyst'', ''write''), (''issuing_support_agent'', ''write'')]\<rparr>"

definition charge :: Permission where
  "charge =
    \<lparr>apiName = ''charge'',
     displayName = getPermissionDisplayName ''charge'',
     description = ''Charge read access'',
     productCategory = ''Payments'',
     taskCategories = [''Handle customer issues'', ''Export & analyze data''],
     actions = ''read'',
     operationType = ''Read-only'',
     riskLevel = ''Standard'',
     hasPII = False,
     hasFinancialData = False,
     hasPaymentCredentials = False,
     roleAccess = [(''view_only'', ''read''), (''refund_analyst'', ''read''), (''dispute_analyst'', ''read'')]\<rparr>"

definition charge_operations :: Permission where
  "charge_operations =
    \<lparr>apiName = ''charge_operations'',
     displayName = getPermissionDisplayName ''charge_operations'',
     description = ''Process charges and refunds'',
     productCategory = ''Payments'',
     taskCategories = [''Handle customer issues'', ''Process transactions''],
     actions = ''write'',
     operationType = ''Write'',
     riskLevel = ''Standard'',
     hasPII = False,
     hasFinancialData = True,
     hasPaymentCredentials = False,
     roleAccess = [(''super_admin'', ''write''), (''admin'', ''write''), (''developer'', ''write''), (''support'', ''write''), (''support_associate'', ''write''), (''analyst'', ''write'')]\<rparr>"

definition payment_intent :: Permission where
  "payment_intent =
    \<lparr>apiName = ''payment_intent'',
     displayName = getPermissionDisplayName ''payment_intent'',
     description = ''Payment intent read'',
     productCategory = ''Payments'',
     taskCategories = [''Handle customer issues'', ''Export & analyze data''],
     actions = ''read'',
     operationType = ''Read-only'',
     riskLevel = ''Standard'',
     hasPII = False,
     hasFinancialData = False,
     hasPaymentCredentials = False,
     roleAccess = [(''view_only'', ''read''), (''refund_analyst'', ''read''), (''dispute_analyst'', ''read'')]\<rparr>"

definition payment_intent_operations :: Permission where
  "payment_intent_operations =
    \<lparr>apiName = ''payment_intent_operations'',
     displayName = getPermissionDisplayName ''payment_intent_operations'',
     description = ''Manage payment intents'',
     productCategory = ''Payments'',
     taskCategories = [''Handle customer issues'', ''Process transactions''],
     actions = ''write'',
     operationType = ''Write'',
     riskLevel = ''Standard'',
     hasPII = False,
     hasFinancialData = False,
     hasPaymentCredentials = False,
     roleAccess = [(''super_admin'', ''write''), (''admin'', ''write''), (''developer'', ''write''), (''support'', ''write''), (''support_associate'', ''write''), (''analyst'', ''write'')]\<rparr>"

definition payment_processing :: Permission where
  "payment_processing =
    \<lparr>apiName = ''payment_processing'',
     displayName = getPermissionDisplayName ''payment_processing'',
     description = ''Manage payment methods'',
     productCategory = ''Payments'',
     taskCategories = [''Process transactions'', ''Configure settings''],
     actions = ''read, write'',
     operationType = ''Read + Write'',
     riskLevel = ''Standard'',
     hasPII = False,
     hasFinancialData = False,
     hasPaymentCredentials = True,
     roleAccess = [(''super_admin'', ''write''), (''admin'', ''write''), (''view_only'', ''read''), (''developer'', ''write''), (''support'', ''write''), (''support_associate'', ''write''), (''analyst'', ''write''), (''refund_analyst'', ''read''), (''dispute_analyst'', ''read'')]\<rparr>"

definition checkout_operations :: Permission where
  "checkout_operations =
    \<lparr>apiName = ''checkout_operations'',
     displayName = getPermissionDisplayName ''checkout_operations'',
     description = ''Manage checkout'',
     productCategory = ''Products & Orders'',
     taskCategories = [''Process transactions'', ''Configure settings''],
     actions = ''read, write'',
     operationType = ''Read + Write'',
     riskLevel = ''Standard'',
     hasPII = False,
     hasFinancialData = False,
     hasPaymentCredentials = False,
     roleAccess = [(''super_admin'', ''write''), (''admin'', ''write''), (''view_only'', ''read''), (''developer'', ''write''), (''support'', ''write''), (''support_associate'', ''read''), (''analyst'', ''write'')]\<rparr>"

definition order_operations :: Permission where
  "order_operations =
    \<lparr>apiName = ''order_operations'',
     displayName = getPermissionDisplayName ''order_operations'',
     description = ''Manage orders'',
     productCategory = ''Products & Orders'',
     taskCategories = [''Handle customer issues'', ''Process transactions''],
     actions = ''read, write'',
     operationType = ''Read + Write'',
     riskLevel = ''Standard'',
     hasPII = False,
     hasFinancialData = False,
     hasPaymentCredentials = False,
     roleAccess = [(''super_admin'', ''write''), (''admin'', ''write''), (''view_only'', ''read''), (''developer'', ''write''), (''support'', ''write''), (''support_associate'', ''write''), (''analyst'', ''write''), (''refund_analyst'', ''read''), (''dispute_analyst'', ''read'')]\<rparr>"

definition order_refund_operations :: Permission where
  "order_refund_operations =
    \<lparr>apiName = ''order_refund_operations'',
     displayName = getPermissionDisplayName ''order_refund_operations'',
     description = ''Process order refunds'',
     productCategory = ''Products & Orders'',
     taskCategories = [''Handle customer issues''],
     actions = ''write'',
     operationType = ''Write'',
     riskLevel = ''Standard'',
     hasPII = False,
     hasFinancialData = True,
     hasPaymentCredentials = False,
     roleAccess = [(''super_admin'', ''write''), (''admin'', ''write''), (''analyst'', ''write''), (''refund_analyst'', ''write'')]\<rparr>"

definition product_operations :: Permission where
  "product_operations =
    \<lparr>apiName = ''product_operations'',
     displayName = getPermissionDisplayName ''product_operations'',
     description = ''Manage products and pricing'',
     productCategory = ''Products & Orders'',
     taskCategories = [''Manage catalog'', ''Configure settings''],
     actions = ''read, write'',
     operationType = ''Read + Write'',
     riskLevel = ''Standard'',
     hasPII = False,
     hasFinancialData = False,
     hasPaymentCredentials = False,
     roleAccess = [(''super_admin'', ''write''), (''admin'', ''write''), (''view_only'', ''read''), (''support'', ''write''), (''support_associate'', ''read''), (''analyst'', ''write''), (''refund_analyst'', ''read''), (''dispute_analyst'', ''read'')]\<rparr>"

definition promotion_operations :: Permission where
  "promotion_operations =
    \<lparr>apiName = ''promotion_operations'',
     displayName = getPermissionDisplayName ''promotion_operations'',
     description = ''Manage promotions'',
     productCategory = ''Products & Orders'',
     taskCategories = [''Manage catalog'', ''Configure settings''],
     actions = ''read, write'',
     operationType = ''Read + Write'',
     riskLevel = ''Standard'',
     hasPII = False,
     hasFinancialData = False,
     hasPaymentCredentials = False,
     roleAccess = [(''super_admin'', ''write''), (''admin'', ''write''), (''view_only'', ''read''), (''developer'', ''write''), (''support'', ''write''), (''support_associate'', ''write''), (''analyst'', ''write'')]\<rparr>"

definition dashboard_baseline :: Permission where
  "dashboard_baseline =
    \<lparr>apiName = ''dashboard_baseline'',
     displayName = getPermissionDisplayName ''dashboard_baseline'',
     description = ''Basic Dashboard access (required)'',
     productCategory = ''Support & Operations'',
     taskCategories = [''All tasks''],
     actions = ''read'',
     operationType = ''Read-only'',
     riskLevel = ''Standard'',
     hasPII = False,
     hasFinancialData = False,
     hasPaymentCredentials = False,
     roleAccess = [(''super_admin'', ''read''), (''admin'', ''read''), (''view_only'', ''read''), (''developer'', ''read''), (''support'', ''read''), (''support_associate'', ''read''), (''analyst'', ''read''), (''refund_analyst'', ''read''), (''dispute_analyst'', ''read''), (''issuing_support_agent'', ''read''), (''tax_analyst'', ''read''), (''identity_analyst'', ''read''), (''iam_admin'', ''read''), (''sandbox_admin'', ''read'')]\<rparr>"

definition settings_security :: Permission where
  "settings_security =
    \<lparr>apiName = ''settings_security'',
     displayName = getPermissionDisplayName ''settings_security'',
     description = ''Security configuration'',
     productCategory = ''Support & Operations'',
     taskCategories = [''Configure settings'', ''Manage team access''],
     actions = ''write'',
     operationType = ''Write'',
     riskLevel = ''Elevated'',
     hasPII = False,
     hasFinancialData = False,
     hasPaymentCredentials = True,
     roleAccess = [(''iam_admin'', ''write'')]\<rparr>"

definition tax_automation_operations :: Permission where
  "tax_automation_operations =
    \<lparr>apiName = ''tax_automation_operations'',
     displayName = getPermissionDisplayName ''tax_automation_operations'',
     description = ''Tax automation rules'',
     productCategory = ''Tax'',
     taskCategories = [''Configure settings'', ''Monitor tax compliance''],
     actions = ''read, write'',
     operationType = ''Read + Write'',
     riskLevel = ''Standard'',
     hasPII = False,
     hasFinancialData = False,
     hasPaymentCredentials = False,
     roleAccess = [(''super_admin'', ''write''), (''admin'', ''write''), (''view_only'', ''read''), (''developer'', ''write''), (''support'', ''write''), (''analyst'', ''write''), (''tax_analyst'', ''write'')]\<rparr>"

definition tax_filing_operations :: Permission where
  "tax_filing_operations =
    \<lparr>apiName = ''tax_filing_operations'',
     displayName = getPermissionDisplayName ''tax_filing_operations'',
     description = ''Tax filing management'',
     productCategory = ''Tax'',
     taskCategories = [''Configure settings'', ''Monitor tax compliance''],
     actions = ''read, write'',
     operationType = ''Read + Write'',
     riskLevel = ''Standard'',
     hasPII = True,
     hasFinancialData = True,
     hasPaymentCredentials = False,
     roleAccess = [(''super_admin'', ''write''), (''admin'', ''write''), (''view_only'', ''read''), (''developer'', ''read''), (''analyst'', ''write''), (''tax_analyst'', ''write'')]\<rparr>"

definition terminal_infrastructure :: Permission where
  "terminal_infrastructure =
    \<lparr>apiName = ''terminal_infrastructure'',
     displayName = getPermissionDisplayName ''terminal_infrastructure'',
     description = ''View terminal infrastructure'',
     productCategory = ''Terminal'',
     taskCategories = [''Monitor hardware''],
     actions = ''read'',
     operationType = ''Read-only'',
     riskLevel = ''Standard'',
     hasPII = False,
     hasFinancialData = False,
     hasPaymentCredentials = False,
     roleAccess = [(''super_admin'', ''read''), (''admin'', ''read''), (''view_only'', ''read''), (''support'', ''read''), (''support_associate'', ''read''), (''analyst'', ''read'')]\<rparr>"

definition terminal_operations :: Permission where
  "terminal_operations =
    \<lparr>apiName = ''terminal_operations'',
     displayName = getPermissionDisplayName ''terminal_operations'',
     description = ''Terminal POS operations'',
     productCategory = ''Terminal'',
     taskCategories = [''Manage hardware'', ''Process transactions''],
     actions = ''write'',
     operationType = ''Write'',
     riskLevel = ''Standard'',
     hasPII = False,
     hasFinancialData = False,
     hasPaymentCredentials = False,
     roleAccess = [(''super_admin'', ''write''), (''admin'', ''write''), (''analyst'', ''write'')]\<rparr>"

definition permissions :: "Permission list" where
  "permissions =
    [account_admin_management_operations, account_operations, accounts_kyc_basic,
     application_fee_operations, connect_settings, connected_account_operations,
     embeddable_key_admin, sandbox_creation, team_management, sensitive_resources,
     billing_operations, billing_settings_operations, credit_note_operations,
     invoice_operations, subscription_operations, capital_operations, treasury_operations,
     identity_verification_operations, climate_operations, crypto_operations,
     customer_operations, customer_portal_operations, dispute_operations, radar_operations,
     review_operations, balance_operations, balance_transfer_operations, payout_operations,
     transfer_operations, data_export_operations, dev_integration, reporting_operations,
     stripe_apps_development, issuing_card_operations, charge, charge_operations,
     payment_intent, payment_intent_operations, payment_processing, checkout_operations,
     order_operations, order_refund_operations, product_operations, promotion_operations,
     dashboard_baseline, settings_security, tax_automation_operations, tax_filing_operations,
     terminal_infrastructure, terminal_operations]"

definition getAllPermissions :: "Permission list" where
  "getAllPermissions = permissions"

section \<open>Access resolver\<close>

text \<open>
  \<open>getPermissionsForRole\<close> filters the catalog by the truthiness of
  \<open>p.roleAccess[roleId]\<close> and maps each kept record to itself or, for a role that only
  has read access to a permission that is not read-only, to a copy with two fields
  replaced.
\<close>

definition adjustForRole :: "string \<Rightarrow> Permission \<Rightarrow> Permission" where
  "adjustForRole roleId p =
     (if getProperty (roleAccess p) roleId = Own ''read'' \<and> operationType p \<noteq> ''Read-only''
      then p\<lparr>operationType := ''Read-only'', actions := ''read''\<rparr>
      else p)"

definition getPermissionsForRole :: "string \<Rightarrow> Permission list" where
  "getPermissionsForRole roleId =
     map (adjustForRole roleId)
       (filter (\<lambda>p. truthy (getProperty (roleAccess p) roleId)) permissions)"

text \<open>
  The same function over an explicit store, to observe what it writes. Objects live
  in a store addressed by position, an array is a list of addresses, and the catalog
  array holds the addresses of the catalog's records. \<open>filter\<close> builds a new array of the
  same addresses; \<open>map\<close> keeps the address of a record it returns as it is and allocates
  a new object for the spread copy \<open>{...p, operationType, actions}\<close>. The addresses of
  the catalog array are positions of the store, so every read \<open>s ! r\<close> is in range. The
  copy shares the \<open>roleAccess\<close> object of the original, which nothing writes to.
\<close>

type_synonym ref = nat
type_synonym store = "Permission list"

definition alloc :: "Permission \<Rightarrow> store \<Rightarrow> ref \<times> store" where
  "alloc obj s = (length s, s @ [obj])"

fun mapAdjust :: "string \<Rightarrow> ref list \<Rightarrow> store \<Rightarrow> ref list \<times> store" where
  "mapAdjust roleId [] s = ([], s)"
| "mapAdjust roleId (r # rs) s =
     (let p = s ! r in
      if getProperty (roleAccess p) roleId = Own ''read'' \<and> operationType p \<noteq> ''Read-only''
      then (case alloc (p\<lparr>operationType := ''Read-only'', actions := ''read''\<rparr>) s of
              (r', s') \<Rightarrow> (case mapAdjust roleId rs s' of (out, s'') \<Rightarrow> (r' # out, s'')))
      else (case mapAdjust roleId rs s of (out, s') \<Rightarrow> (r # out, s')))"

definition getPermissionsForRole_store :: "string \<Rightarrow> ref list \<Rightarrow> store \<Rightarrow> ref list \<times> store" where
  "getPermissionsForRole_store roleId catalog s =
     mapAdjust roleId (filter (\<lambda>r. truthy (getProperty (roleAccess (s ! r)) roleId)) catalog) s"

text \<open>The store at start-up: the catalog's records, at the addresses the catalog array lists.\<close>

definition catalogStore :: store where
  "catalogStore = permissions"

definition catalogRefs :: "ref list" where
  "catalogRefs = [0..<length permissions]"

definition getPermissionsByApiNames :: "string list \<Rightarrow> Permission list" where
  "getPermissionsByApiNames apiNames =
     (let apiNameSet = newSet apiNames
      in filter (\<lambda>p. apiName p \<in> set apiNameSet) permissions)"

section \<open>Grouping engine\<close>

definition getSensitivityGroups :: "Permission \<Rightarrow> string list" where
  "getSensitivityGroups p =
     (let groups = [];
          groups = (if hasPII p then groups @ [''PII''] else groups);
          groups = (if hasFinancialData p then groups @ [''Financial Data''] else groups);
          groups = (if hasPaymentCredentials p then groups @ [''Payment Credentials''] else groups);
          groups = (if length groups = 0 then groups @ [''Non-sensitive''] else groups)
      in groups)"

text \<open>The five members of the type \<open>GroupByOption\<close>; at run time the dimension is a string.\<close>

definition GroupByOption :: "string list" where
  "GroupByOption = [''productCategory'', ''taskCategory'', ''operationType'', ''riskLevel'', ''sensitivity'']"

text \<open>
  \<open>p[groupBy]\<close> used as a property key: the value's string form. A string is itself,
  a boolean prints as \<open>true\<close> or \<open>false\<close>, an array as its elements joined by commas, an
  object as \<open>[object Object]\<close>, a missing property as \<open>undefined\<close>. An inherited function
  prints as its source text, which engines give as below.
\<close>

definition inheritedText :: "string \<Rightarrow> string" where
  "inheritedText name =
     (if name = ''__proto__'' then ''[object Object]''
      else ''function '' @ (if name = ''constructor'' then ''Object'' else name) @ ''() { [native code] }'')"

definition propertyKey :: "Permission \<Rightarrow> string \<Rightarrow> string" where
  "propertyKey p name =
     (if name = ''apiName'' then apiName p
      else if name = ''displayName'' then displayName p
      else if name = ''description'' then description p
      else if name = ''productCategory'' then productCategory p
      else if name = ''taskCategories'' then join '','' (taskCategories p)
      else if name = ''actions'' then actions p
      else if name = ''operationType'' then operationType p
      else if name = ''riskLevel'' then riskLevel p
      else if name = ''hasPII'' then showBool (hasPII p)
      else if name = ''hasFinancialData'' then showBool (hasFinancialData p)
      else if name = ''hasPaymentCredentials'' then showBool (hasPaymentCredentials p)
      else if name = ''roleAccess'' then ''[object Object]''
      else if name \<in> set objectPrototypeKeys then inheritedText name
      else ''undefined'')"

type_synonym groups = "(string \<times> Permission list) list"

text \<open>\<open>if (!groups[key]) groups[key] = []; groups[key].push(p)\<close>\<close>

definition pushTo :: "string \<Rightarrow> Permission \<Rightarrow> groups \<Rightarrow> error + groups" where
  "pushTo key p groups =
     (case getProperty groups key of
        Own bucket \<Rightarrow> Inr (AList.update key (bucket @ [p]) groups)
      | Inherited \<Rightarrow> Inl TypeError
      | Undefined \<Rightarrow> Inr (AList.update key [p] groups))"

fun pushAll :: "string list \<Rightarrow> Permission \<Rightarrow> groups \<Rightarrow> error + groups" where
  "pushAll [] p groups = Inr groups"
| "pushAll (key # keys) p groups =
     (case pushTo key p groups of Inl e \<Rightarrow> Inl e | Inr groups' \<Rightarrow> pushAll keys p groups')"

definition groupStep :: "string \<Rightarrow> Permission \<Rightarrow> groups \<Rightarrow> error + groups" where
  "groupStep groupBy p groups =
     (if groupBy = ''taskCategory'' then pushAll (taskCategories p) p groups
      else if groupBy = ''sensitivity'' then pushAll (getSensitivityGroups p) p groups
      else if groupBy = ''operationType'' then pushTo (operationType p) p groups
      else if groupBy = ''riskLevel'' then pushTo (riskLevel p) p groups
      else pushTo (propertyKey p groupBy) p groups)"

fun groupLoop :: "string \<Rightarrow> Permission list \<Rightarrow> groups \<Rightarrow> error + groups" where
  "groupLoop groupBy [] groups = Inr groups"
| "groupLoop groupBy (p # perms) groups =
     (case groupStep groupBy p groups of
        Inl e \<Rightarrow> Inl e
      | Inr groups' \<Rightarrow> groupLoop groupBy perms groups')"

definition groupPermissions :: "Permission list \<Rightarrow> string \<Rightarrow> error + groups" where
  "groupPermissions perms groupBy = groupLoop groupBy perms []"

text \<open>A permission appears in the bucket of a label.\<close>

definition inBucket :: "groups \<Rightarrow> string \<Rightarrow> Permission \<Rightarrow> bool" where
  "inBucket g label p = (case map_of g label of Some bucket \<Rightarrow> p \<in> set bucket | None \<Rightarrow> False)"

text \<open>The keys under which the loop body files one permission, and the number of entries of a grouping.\<close>

definition groupKeys :: "string \<Rightarrow> Permission \<Rightarrow> string list" where
  "groupKeys groupBy p =
     (if groupBy = ''taskCategory'' then taskCategories p
      else if groupBy = ''sensitivity'' then getSensitivityGroups p
      else if groupBy = ''operationType'' then [operationType p]
      else if groupBy = ''riskLevel'' then [riskLevel p]
      else [propertyKey p groupBy])"

definition bucketTotal :: "groups \<Rightarrow> nat" where
  "bucketTotal g = sum_list (map (\<lambda>(label, bucket). length bucket) g)"

section \<open>Role-detail generator\<close>

subsection \<open>The "can do" list\<close>

type_synonym taskGroups = "(string \<times> string list) list"

text \<open>\<open>p.description || p.apiName.replace(/_/g, " ")\<close>\<close>

definition descriptionOf :: "Permission \<Rightarrow> string" where
  "descriptionOf p =
     (if description p \<noteq> [] then description p
      else map (\<lambda>c. if c = CHR ''_'' then CHR '' '' else c) (apiName p))"

text \<open>\<open>if (!taskGroups[tc]) taskGroups[tc] = new Set(); taskGroups[tc].add(desc)\<close>\<close>

definition addDescription :: "string \<Rightarrow> string \<Rightarrow> taskGroups \<Rightarrow> error + taskGroups" where
  "addDescription tc desc taskGroups =
     (case getProperty taskGroups tc of
        Own descs \<Rightarrow> Inr (AList.update tc (setAdd descs desc) taskGroups)
      | Inherited \<Rightarrow> Inl TypeError
      | Undefined \<Rightarrow> Inr (AList.update tc (setAdd [] desc) taskGroups))"

fun addDescriptions :: "string list \<Rightarrow> string \<Rightarrow> taskGroups \<Rightarrow> error + taskGroups" where
  "addDescriptions [] desc taskGroups = Inr taskGroups"
| "addDescriptions (tc # tcs) desc taskGroups =
     (case addDescription tc desc taskGroups of
        Inl e \<Rightarrow> Inl e
      | Inr taskGroups' \<Rightarrow> addDescriptions tcs desc taskGroups')"

fun collectTaskGroups :: "Permission list \<Rightarrow> taskGroups \<Rightarrow> error + taskGroups" where
  "collectTaskGroups [] taskGroups = Inr taskGroups"
| "collectTaskGroups (p # perms) taskGroups =
     (case addDescriptions (taskCategories p) (descriptionOf p) taskGroups of
        Inl e \<Rightarrow> Inl e
      | Inr taskGroups' \<Rightarrow> collectTaskGroups perms taskGroups')"

definition priorityTasks :: "string list" where
  "priorityTasks =
    [''Process transactions'', ''Handle customer issues'', ''Manage billing'',
     ''Monitor financials'', ''Export & analyze data'', ''Configure settings'',
     ''Develop & integrate'', ''Manage team access'', ''Transfer funds'']"

text \<open>What one round of the priority loop pushes.\<close>

definition priorityBullets :: "taskGroups \<Rightarrow> string \<Rightarrow> string list" where
  "priorityBullets taskGroups task =
     (case getProperty taskGroups task of
        Own descriptions \<Rightarrow>
          if length descriptions > 0
          then (if length descriptions > 2
                then [task @ '' ('' @ showNat (length descriptions) @ '' capabilities)'']
                else take 2 descriptions)
          else []
      | Inherited \<Rightarrow> []
      | Undefined \<Rightarrow> [])"

text \<open>
  \<open>Object.entries\<close> lists the own properties whose key is an array index (a canonical
  decimal numeral below \<open>2^32 - 1\<close>) first, in ascending numeric order, and then the other
  keys in creation order.
\<close>

definition digitValue :: "char \<Rightarrow> nat" where
  "digitValue c = (case map_of (zip ''0123456789'' [0..<10]) c of Some d \<Rightarrow> d | None \<Rightarrow> 0)"

definition parseNat :: "string \<Rightarrow> nat" where
  "parseNat s = foldl (\<lambda>n c. 10 * n + digitValue c) 0 s"

definition isArrayIndex :: "string \<Rightarrow> bool" where
  "isArrayIndex s =
     (s \<noteq> [] \<and> list_all (\<lambda>c. c \<in> set ''0123456789'') s \<and>
      (s = ''0'' \<or> hd s \<noteq> CHR ''0'') \<and> length s \<le> 10 \<and> parseNat s < 4294967295)"

definition objectEntries :: "(string \<times> 'a) list \<Rightarrow> (string \<times> 'a) list" where
  "objectEntries obj =
     sort_key (\<lambda>kv. parseNat (fst kv)) (filter (\<lambda>kv. isArrayIndex (fst kv)) obj)
     @ filter (\<lambda>kv. \<not> isArrayIndex (fst kv)) obj"

definition remainingBullets :: "taskGroups \<Rightarrow> string list" where
  "remainingBullets taskGroups =
     concat (map (\<lambda>(task, descs).
                    if task \<notin> set priorityTasks \<and> length descs > 0 then take 1 descs else [])
                 (objectEntries taskGroups))"

text \<open>The filter that drops an item whose lower-case form was seen before.\<close>

fun dedupe :: "string list \<Rightarrow> string list \<Rightarrow> string list" where
  "dedupe seen [] = []"
| "dedupe seen (item # items) =
     (let normalized = toLowerCase item in
      if normalized \<in> set seen then dedupe seen items
      else item # dedupe (setAdd seen normalized) items)"

definition generateCanDo :: "Permission list \<Rightarrow> error + string list" where
  "generateCanDo selectedPermissions =
     (if length selectedPermissions = 0 then Inr [''Access basic Dashboard features'']
      else
        (case collectTaskGroups selectedPermissions [] of
           Inl e \<Rightarrow> Inl e
         | Inr taskGroups \<Rightarrow>
             (let canDoList = concat (map (priorityBullets taskGroups) priorityTasks);
                  canDoList = canDoList @ remainingBullets taskGroups
              in Inr (take 6 (dedupe [] canDoList)))))"

subsection \<open>The "cannot do" list\<close>

definition notablePermissions :: "(string \<times> string) list" where
  "notablePermissions =
    [(''team_management'', ''Invite, remove, or manage team member roles''),
     (''sensitive_resources'', ''View or manage API keys and secrets''),
     (''balance_transfer_operations'', ''Transfer funds between accounts''),
     (''payout_operations'', ''Create or manage payouts''),
     (''settings_security'', ''Change security settings or 2FA''),
     (''dispute_operations'', ''Accept, challenge, or manage disputes''),
     (''order_refund_operations'', ''Issue refunds''),
     (''charge_operations'', ''Create new charges or payments''),
     (''customer_pii_operations'', ''View or edit customer personal information''),
     (''account_admin_management_operations'', ''Perform administrative account changes'')]"

definition generateCannotDo :: "Permission list \<Rightarrow> string list" where
  "generateCannotDo selectedPermissions =
     (let allPerms = getAllPermissions;
          selectedApiNames = newSet (map apiName selectedPermissions);
          cannotList = foldl (\<lambda>cannotList (permApiName, description).
                                if permApiName \<notin> set selectedApiNames \<and> length cannotList < 5
                                then cannotList @ [description] else cannotList)
                             [] (objectEntries notablePermissions);
          cannotList =
            (if length cannotList < 5
             then (let hasAnyWrite = list_ex (\<lambda>p. includes_str (toLowerCase (actions p)) ''write'')
                                              selectedPermissions
                   in if \<not> hasAnyWrite
                      then cannotList @ [''Make any changes (read-only access)'']
                      else cannotList)
             else cannotList);
          cannotList =
            (if length cannotList < 5
             then (let selectedCategories = newSet (map productCategory selectedPermissions);
                       allCategories = newSet (map productCategory allPerms)
                   in foldl (\<lambda>cannotList cat.
                               if cat \<notin> set selectedCategories \<and> length cannotList < 5
                               then cannotList @ [''Access '' @ cat @ '' features'']
                               else cannotList)
                            cannotList allCategories)
             else cannotList)
      in take 5 cannotList)"

section \<open>Risk assessment engine\<close>

datatype RiskLevel = Low | Medium | High

record Factor =
  name :: string
  level :: RiskLevel
  factorDescription :: string
  count :: nat

record RiskAssessment =
  overallRisk :: RiskLevel
  score :: int
  factors :: "Factor list"
  warnings :: "string list"
  recommendations :: "string list"

definition HIGH_RISK_PERMISSIONS :: "(string \<times> string) list" where
  "HIGH_RISK_PERMISSIONS =
    [(''balance_transfer_operations'', ''Can transfer funds between accounts''),
     (''account_admin_management_operations'', ''Can perform destructive account operations''),
     (''team_management'', ''Can invite/remove team members and change roles''),
     (''settings_security'', ''Can modify security settings and 2FA''),
     (''sensitive_resources'', ''Has access to API keys and secrets''),
     (''embeddable_key_admin'', ''Can manage embeddable keys''),
     (''payout_operations'', ''Can create and manage payouts'')]"

subsection \<open>The counts taken from the selection\<close>

definition isWrite :: "Permission \<Rightarrow> bool" where
  "isWrite p = (operationType p = ''Write'' \<or> operationType p = ''Read + Write'')"

definition writeCount :: "Permission list \<Rightarrow> nat" where
  "writeCount selectedPermissions = length (filter isWrite selectedPermissions)"

definition readOnlyCount :: "Permission list \<Rightarrow> nat" where
  "readOnlyCount selectedPermissions =
     length (filter (\<lambda>p. operationType p = ''Read-only'') selectedPermissions)"

definition isReadOnlyRole :: "Permission list \<Rightarrow> bool" where
  "isReadOnlyRole selectedPermissions =
     (readOnlyCount selectedPermissions = length selectedPermissions)"

definition writeRatio :: "Permission list \<Rightarrow> rat" where
  "writeRatio selectedPermissions =
     of_nat (writeCount selectedPermissions) / of_nat (length selectedPermissions)"

definition writePermissions :: "Permission list \<Rightarrow> Permission list" where
  "writePermissions selectedPermissions = filter isWrite selectedPermissions"

definition criticalCount :: "Permission list \<Rightarrow> nat" where
  "criticalCount selectedPermissions =
     length (filter (\<lambda>p. riskLevel p = ''Critical'') (writePermissions selectedPermissions))"

definition elevatedCount :: "Permission list \<Rightarrow> nat" where
  "elevatedCount selectedPermissions =
     length (filter (\<lambda>p. riskLevel p = ''Elevated'') (writePermissions selectedPermissions))"

definition standardCount :: "Permission list \<Rightarrow> nat" where
  "standardCount selectedPermissions =
     length (filter (\<lambda>p. riskLevel p = ''Standard'') selectedPermissions)"

definition piiCount :: "Permission list \<Rightarrow> nat" where
  "piiCount selectedPermissions = length (filter hasPII selectedPermissions)"

definition financialCount :: "Permission list \<Rightarrow> nat" where
  "financialCount selectedPermissions = length (filter hasFinancialData selectedPermissions)"

definition credentialsCount :: "Permission list \<Rightarrow> nat" where
  "credentialsCount selectedPermissions = length (filter hasPaymentCredentials selectedPermissions)"

definition sensitivityMultiplier :: "Permission list \<Rightarrow> rat" where
  "sensitivityMultiplier selectedPermissions =
     (if isReadOnlyRole selectedPermissions then 2 / 10 else 1)"

definition productCategoriesOf :: "Permission list \<Rightarrow> string list" where
  "productCategoriesOf selectedPermissions = newSet (map productCategory selectedPermissions)"

text \<open>\<open>n > 1 ? 's' : ''\<close>\<close>

definition plural :: "nat \<Rightarrow> string" where
  "plural n = (if n > 1 then ''s'' else [])"

subsection \<open>The running state and the steps that update it\<close>

record locals =
  factorsAcc :: "Factor list"
  warningsAcc :: "string list"
  recommendationsAcc :: "string list"
  totalScore :: int

definition initialLocals :: locals where
  "initialLocals = \<lparr>factorsAcc = [], warningsAcc = [], recommendationsAcc = [], totalScore = 0\<rparr>"

definition pushFactor :: "Factor \<Rightarrow> locals \<Rightarrow> locals" where
  "pushFactor f st = st\<lparr>factorsAcc := factorsAcc st @ [f]\<rparr>"

definition pushWarning :: "string \<Rightarrow> locals \<Rightarrow> locals" where
  "pushWarning w st = st\<lparr>warningsAcc := warningsAcc st @ [w]\<rparr>"

definition pushRecommendation :: "string \<Rightarrow> locals \<Rightarrow> locals" where
  "pushRecommendation r st = st\<lparr>recommendationsAcc := recommendationsAcc st @ [r]\<rparr>"

definition addScore :: "int \<Rightarrow> locals \<Rightarrow> locals" where
  "addScore n st = st\<lparr>totalScore := totalScore st + n\<rparr>"

text \<open>1. Risk level analysis (write-bearing permissions only).\<close>

definition criticalStep :: "Permission list \<Rightarrow> locals \<Rightarrow> locals" where
  "criticalStep ps st =
     (if criticalCount ps > 0
      then addScore (int (criticalCount ps) * 25)
             (pushFactor \<lparr>name = ''Critical Operations'', level = High,
                factorDescription = showNat (criticalCount ps) @ '' permission'' @ plural (criticalCount ps)
                  @ '' can perform irreversible or high-impact actions'',
                count = criticalCount ps\<rparr> st)
      else st)"

definition elevatedStep :: "Permission list \<Rightarrow> locals \<Rightarrow> locals" where
  "elevatedStep ps st =
     (if elevatedCount ps > 0
      then addScore (int (elevatedCount ps) * 15)
             (pushFactor \<lparr>name = ''Administrative Access'', level = High,
                factorDescription = showNat (elevatedCount ps) @ '' permission'' @ plural (elevatedCount ps)
                  @ '' can modify settings or manage access'',
                count = elevatedCount ps\<rparr> st)
      else st)"

text \<open>2. Sensitivity analysis, weighted by the multiplier.\<close>

definition credentialsStep :: "Permission list \<Rightarrow> locals \<Rightarrow> locals" where
  "credentialsStep ps st =
     (if credentialsCount ps > 0
      then (let st = pushFactor \<lparr>name = ''Payment Credentials'',
                       level = (if isReadOnlyRole ps then Medium else High),
                       factorDescription = (if isReadOnlyRole ps then ''Read'' else ''Access to'') @ '' ''
                         @ showNat (credentialsCount ps) @ '' permission'' @ plural (credentialsCount ps)
                         @ '' with API keys, secrets, or payment tokens'',
                       count = credentialsCount ps\<rparr> st;
                st = addScore (Math_round (of_nat (credentialsCount ps) * 20 * sensitivityMultiplier ps)) st
            in if \<not> isReadOnlyRole ps
               then pushWarning ''Role has access to payment credentials - ensure proper security training'' st
               else st)
      else st)"

definition financialStep :: "Permission list \<Rightarrow> locals \<Rightarrow> locals" where
  "financialStep ps st =
     (if financialCount ps > 0
      then addScore (Math_round (of_nat (financialCount ps) * 10 * sensitivityMultiplier ps))
             (pushFactor \<lparr>name = ''Financial Data'',
                level = (if isReadOnlyRole ps then Low else High),
                factorDescription = (if isReadOnlyRole ps then ''Read-only view of'' else ''Access to'') @ '' ''
                  @ showNat (financialCount ps) @ '' permission'' @ plural (financialCount ps)
                  @ '' with financial records'',
                count = financialCount ps\<rparr> st)
      else st)"

definition piiStep :: "Permission list \<Rightarrow> locals \<Rightarrow> locals" where
  "piiStep ps st =
     (if piiCount ps > 0
      then (let st = pushFactor \<lparr>name = ''Personal Information'',
                       level = (if isReadOnlyRole ps then Low else Medium),
                       factorDescription = (if isReadOnlyRole ps then ''Read-only view of'' else ''Access to'') @ '' ''
                         @ showNat (piiCount ps) @ '' permission'' @ plural (piiCount ps)
                         @ '' with customer PII'',
                       count = piiCount ps\<rparr> st;
                st = addScore (Math_round (of_nat (piiCount ps) * 8 * sensitivityMultiplier ps)) st
            in if piiCount ps > 3 \<and> \<not> isReadOnlyRole ps
               then pushWarning ''Broad PII access - ensure GDPR/privacy compliance'' st
               else st)
      else st)"

text \<open>3. Operation type analysis: the read-only reduction, or the write-heavy addition.\<close>

definition operationTypeStep :: "Permission list \<Rightarrow> locals \<Rightarrow> locals" where
  "operationTypeStep ps st =
     (if isReadOnlyRole ps
      then (let st = pushFactor \<lparr>name = ''Read-Only Access'', level = Low,
                       factorDescription = ''All permissions are read-only - no modification capability'',
                       count = readOnlyCount ps\<rparr> st
            in st\<lparr>totalScore := Math_round (of_int (totalScore st) * (3 / 10))\<rparr>)
      else if writeRatio ps > 7 / 10
      then addScore 10
             (pushFactor \<lparr>name = ''Write-Heavy Access'', level = Medium,
                factorDescription = showNat (nat (Math_round (writeRatio ps * 100)))
                  @ ''% of permissions allow modifications'',
                count = writeCount ps\<rparr> st)
      else st)"

definition standardStep :: "Permission list \<Rightarrow> locals \<Rightarrow> locals" where
  "standardStep ps st =
     (if standardCount ps > 0 \<and> criticalCount ps = 0 \<and> elevatedCount ps = 0 \<and> \<not> isReadOnlyRole ps
      then pushFactor \<lparr>name = ''Standard Operations'', level = Low,
             factorDescription = showNat (standardCount ps) @ '' permission'' @ plural (standardCount ps)
               @ '' with routine, low-risk access'',
             count = standardCount ps\<rparr> st
      else st)"

text \<open>4. The fixed warnings of the high-risk permissions present.\<close>

definition highRiskStep :: "Permission list \<Rightarrow> locals \<Rightarrow> locals" where
  "highRiskStep ps st =
     foldl (\<lambda>st (highRiskName, warning).
              if list_ex (\<lambda>p. apiName p = highRiskName) ps then pushWarning warning st else st)
           st (objectEntries HIGH_RISK_PERMISSIONS)"

text \<open>5. Breadth of access.\<close>

definition breadthStep :: "Permission list \<Rightarrow> locals \<Rightarrow> locals" where
  "breadthStep ps st =
     (if length (productCategoriesOf ps) > 8
      then pushRecommendation ''Consider splitting into more focused roles''
             (addScore 10
               (pushFactor \<lparr>name = ''Broad Access'', level = Medium,
                  factorDescription = ''Spans '' @ showNat (length (productCategoriesOf ps)) @ '' product areas'',
                  count = length (productCategoriesOf ps)\<rparr> st))
      else st)"

text \<open>6. Recommendations.\<close>

definition recommendationStep :: "Permission list \<Rightarrow> locals \<Rightarrow> locals" where
  "recommendationStep ps st =
     (let st = (if criticalCount ps > 0 \<and> \<not> list_ex (\<lambda>p. apiName p = ''team_management'') ps
                then pushRecommendation
                       ''Critical operations without team management - ensure proper oversight'' st
                else st);
          st = (if length ps > 30
                then pushRecommendation ''Large permission set - review if all are necessary'' st
                else st)
      in if writeCount ps > 0 \<and> readOnlyCount ps = 0
         then pushRecommendation ''No read-only permissions - consider adding for audit visibility'' st
         else st)"

text \<open>The state when the operation type analysis begins, and when all steps are done.\<close>

definition beforeOperationType :: "Permission list \<Rightarrow> locals" where
  "beforeOperationType ps =
     piiStep ps (financialStep ps (credentialsStep ps (elevatedStep ps (criticalStep ps initialLocals))))"

definition finalLocals :: "Permission list \<Rightarrow> locals" where
  "finalLocals ps =
     recommendationStep ps (breadthStep ps (highRiskStep ps (standardStep ps
       (operationTypeStep ps (beforeOperationType ps)))))"

definition riskOrder :: "RiskLevel \<Rightarrow> nat" where
  "riskOrder l = (case l of High \<Rightarrow> 0 | Medium \<Rightarrow> 1 | Low \<Rightarrow> 2)"

definition generateRiskAssessment :: "Permission list \<Rightarrow> RiskAssessment" where
  "generateRiskAssessment selectedPermissions =
     (if length selectedPermissions = 0
      then \<lparr>overallRisk = Low, score = 0, factors = [], warnings = [],
            recommendations = [''Add permissions to define role capabilities'']\<rparr>
      else
        (let st = finalLocals selectedPermissions;
             cappedScore = min 100 (totalScore st)
         in \<lparr>overallRisk =
                (if cappedScore \<ge> 70 then High
                 else if cappedScore \<ge> 45 then High
                 else if cappedScore \<ge> 20 then Medium
                 else Low),
              score = cappedScore,
              factors = sort_key (\<lambda>f. riskOrder (level f)) (factorsAcc st),
              warnings = take 5 (warningsAcc st),
              recommendations = take 3 (recommendationsAcc st)\<rparr>))"

text \<open>What the breadth step adds to the score.\<close>

definition breadthBonus :: "Permission list \<Rightarrow> int" where
  "breadthBonus ps = (if length (productCategoriesOf ps) > 8 then 10 else 0)"

text \<open>
  A selection used below: nine records of the view-only role's view, one from each of
  nine product categories, none of them carrying a sensitivity flag. The role has
  \<open>read\<close> access to each, so each is reported as \<open>Read-only\<close>.
\<close>

definition viewOnlyBroadSelection :: "Permission list" where
  "viewOnlyBroadSelection =
     filter (\<lambda>p. apiName p \<in> set [''account_operations'', ''billing_settings_operations'',
                ''climate_operations'', ''dispute_operations'', ''dev_integration'', ''charge'',
                ''checkout_operations'', ''dashboard_baseline'', ''tax_automation_operations''])
       (getPermissionsForRole ''view_only'')"

text \<open>
  The permissions of a selection that share a task category, and their distinct
  descriptions in order of first occurrence.
\<close>

definition sharingTask :: "Permission list \<Rightarrow> string \<Rightarrow> Permission list" where
  "sharingTask perms task = filter (\<lambda>p. task \<in> set (taskCategories p)) perms"

definition descriptionsFor :: "Permission list \<Rightarrow> string \<Rightarrow> string list" where
  "descriptionsFor perms task = newSet (map descriptionOf (sharingTask perms task))"

text \<open>The descriptions a task-group object holds under a key, none when the key is absent.\<close>

definition descsOf :: "taskGroups \<Rightarrow> string \<Rightarrow> string list" where
  "descsOf tg t = (case map_of tg t of Some descs \<Rightarrow> descs | None \<Rightarrow> [])"

text \<open>
  The bullets of a task category as the specification words them: one summary
  \<open>{task} (N capabilities)\<close> when more than 2 permissions of the selection share the
  category, \<open>N\<close> being their number, and otherwise the descriptions of these at most 2
  permissions.
\<close>

definition taskBullets :: "Permission list \<Rightarrow> string \<Rightarrow> string list" where
  "taskBullets perms task =
     (if length (sharingTask perms task) > 2
      then [task @ '' ('' @ showNat (length (sharingTask perms task)) @ '' capabilities)'']
      else map description (sharingTask perms task))"

text \<open>
  A selection of the catalog used below, with two and with three permissions in a
  priority task category.
\<close>

definition supportSelection :: "Permission list" where
  "supportSelection =
     filter (\<lambda>p. apiName p \<in> set [''climate_operations'', ''dispute_operations'',
                ''charge_operations'', ''order_refund_operations''])
       permissions"

section \<open>Facts about sets-as-lists and about the catalog\<close>

lemma set_foldl_setAdd: "set (foldl setAdd acc xs) = set acc \<union> set xs"
  by (induction xs arbitrary: acc) (auto simp: setAdd_def)

lemma set_newSet: "set (newSet xs) = set xs"
  by (simp add: newSet_def set_foldl_setAdd)

lemma distinct_foldl_setAdd: "distinct acc \<Longrightarrow> distinct (foldl setAdd acc xs)"
  by (induction xs arbitrary: acc) (auto simp: setAdd_def)

lemma distinct_newSet: "distinct (newSet xs)"
  by (simp add: newSet_def distinct_foldl_setAdd)

lemma catalog_apiNames_distinct: "distinct (map apiName permissions)"
  by code_simp

lemma catalog_distinct: "distinct permissions"
  using catalog_apiNames_distinct by (simp add: distinct_map)

lemma catalog_readonly_actions:
  "list_all (\<lambda>p. operationType p = ''Read-only'' \<longrightarrow> actions p = ''read'') permissions"
  by code_simp

section \<open>Lookup by api names\<close>

text \<open>
  Claim C10. For every list of api-name strings, \<open>getPermissionsByApiNames\<close> returns a
  sublist of the catalog in catalog order with at most one entry per catalog
  permission, and the result depends only on which names occur in the input: two
  inputs with the same set of names (a reordering, or a name repeated) give the same
  list.
\<close>

theorem getPermissionsByApiNames_sublist:
  "subseq (getPermissionsByApiNames apiNames) permissions
   \<and> distinct (getPermissionsByApiNames apiNames)
   \<and> (set apiNames = set apiNames' \<longrightarrow>
        getPermissionsByApiNames apiNames = getPermissionsByApiNames apiNames')"
  by (simp add: getPermissionsByApiNames_def set_newSet catalog_distinct)

theorem getPermissionsByApiNames_sublist_witness:
  "set [''charge'', ''no_such_permission'', ''account_operations'', ''charge'']
     = set [''account_operations'', ''no_such_permission'', ''charge'']
   \<and> getPermissionsByApiNames [''charge'', ''no_such_permission'', ''account_operations'', ''charge'']
     = getPermissionsByApiNames [''account_operations'', ''no_such_permission'', ''charge'']
   \<and> getPermissionsByApiNames [''charge'', ''no_such_permission'', ''account_operations'', ''charge'']
     = [account_operations, charge]"
proof -
  have s: "set [''charge'', ''no_such_permission'', ''account_operations'', ''charge'']
     = set [''account_operations'', ''no_such_permission'', ''charge'']" by auto
  have e: "getPermissionsByApiNames [''account_operations'', ''no_such_permission'', ''charge'']
     = [account_operations, charge]" by code_simp
  from getPermissionsByApiNames_sublist
    [of "[''charge'', ''no_such_permission'', ''account_operations'', ''charge'']"
        "[''account_operations'', ''no_such_permission'', ''charge'']"] s e
  show ?thesis by simp
qed

section \<open>The access resolver's read override\<close>

text \<open>
  Claim C4. For every role id and every record returned by \<open>getPermissionsForRole\<close> for
  that role, if the role's access to it is \<open>read\<close>, the record reports operation type
  \<open>Read-only\<close> and actions \<open>read\<close>, whatever the catalog record says. The override branch
  sets both fields; a record that is returned as it is has operation type
  \<open>Read-only\<close> already, and every such record of the catalog has actions \<open>read\<close>.
\<close>

theorem getPermissionsForRole_read_override:
  assumes "q \<in> set (getPermissionsForRole roleId)"
    and "getProperty (roleAccess q) roleId = Own ''read''"
  shows "operationType q = ''Read-only'' \<and> actions q = ''read''"
proof -
  from assms(1) obtain p where p: "p \<in> set permissions" and q: "q = adjustForRole roleId p"
    by (auto simp: getPermissionsForRole_def)
  have ra: "roleAccess q = roleAccess p"
    by (simp add: q adjustForRole_def)
  show ?thesis
  proof (cases "operationType p = ''Read-only''")
    case True
    with p catalog_readonly_actions have "actions p = ''read''"
      by (auto simp: list_all_iff)
    with True show ?thesis by (simp add: q adjustForRole_def)
  next
    case False
    with assms(2) ra show ?thesis by (simp add: q adjustForRole_def)
  qed
qed

theorem getPermissionsForRole_read_override_witness:
  "account_operations\<lparr>operationType := ''Read-only'', actions := ''read''\<rparr>
      \<in> set (getPermissionsForRole ''view_only'')
   \<and> getProperty (roleAccess (account_operations\<lparr>operationType := ''Read-only'', actions := ''read''\<rparr>))
        ''view_only'' = Own ''read''
   \<and> operationType account_operations = ''Read + Write''
   \<and> operationType (account_operations\<lparr>operationType := ''Read-only'', actions := ''read''\<rparr>) = ''Read-only''
   \<and> actions (account_operations\<lparr>operationType := ''Read-only'', actions := ''read''\<rparr>) = ''read''"
proof -
  have m: "account_operations\<lparr>operationType := ''Read-only'', actions := ''read''\<rparr>
      \<in> set (getPermissionsForRole ''view_only'')" by code_simp
  have a: "getProperty (roleAccess (account_operations\<lparr>operationType := ''Read-only'', actions := ''read''\<rparr>))
        ''view_only'' = Own ''read''" by code_simp
  have n: "operationType account_operations = ''Read + Write''" by code_simp
  from getPermissionsForRole_read_override [OF m a] m a n show ?thesis by simp
qed

section \<open>The risk score\<close>

lemma totalScore_pushFactor [simp]: "totalScore (pushFactor f st) = totalScore st"
  by (simp add: pushFactor_def)

lemma totalScore_pushWarning [simp]: "totalScore (pushWarning w st) = totalScore st"
  by (simp add: pushWarning_def)

lemma totalScore_pushRecommendation [simp]: "totalScore (pushRecommendation r st) = totalScore st"
  by (simp add: pushRecommendation_def)

lemma totalScore_addScore [simp]: "totalScore (addScore n st) = totalScore st + n"
  by (simp add: addScore_def)

lemma totalScore_warningFold:
  "totalScore (foldl (\<lambda>st (highRiskName, warning).
       if list_ex (\<lambda>p. apiName p = highRiskName) ps then pushWarning warning st else st) st table)
   = totalScore st"
  by (induction table arbitrary: st) (auto split: prod.splits)

lemma totalScore_highRiskStep [simp]: "totalScore (highRiskStep ps st) = totalScore st"
  by (simp add: highRiskStep_def totalScore_warningFold)

lemma totalScore_standardStep [simp]: "totalScore (standardStep ps st) = totalScore st"
  by (simp add: standardStep_def)

lemma totalScore_recommendationStep [simp]: "totalScore (recommendationStep ps st) = totalScore st"
  by (simp add: recommendationStep_def Let_def)

lemma totalScore_breadthStep: "totalScore (breadthStep ps st) = totalScore st + breadthBonus ps"
  by (simp add: breadthStep_def breadthBonus_def)

lemma isReadOnlyRole_iff:
  "isReadOnlyRole ps \<longleftrightarrow> (\<forall>p \<in> set ps. operationType p = ''Read-only'')"
proof -
  have "length (filter P xs) = length xs \<longleftrightarrow> (\<forall>x \<in> set xs. P x)" for P and xs :: "Permission list"
    by (metis filter_True length_filter_less less_irrefl)
  then show ?thesis by (simp add: isReadOnlyRole_def readOnlyCount_def)
qed

lemma readOnly_totalScore:
  assumes "isReadOnlyRole ps"
  shows "totalScore (finalLocals ps) =
     Math_round (of_int (totalScore (beforeOperationType ps)) * (3 / 10)) + breadthBonus ps"
  using assms
  by (simp add: finalLocals_def totalScore_breadthStep operationTypeStep_def Let_def)

lemma floor_half: "\<lfloor>1 / 2 :: rat\<rfloor> = 0"
  by (simp add: floor_eq_iff)

lemma empty_selection_score:
  "Math_round (of_int (totalScore (beforeOperationType [])) * (3 / 10)) + breadthBonus [] = 0"
  by (simp add: beforeOperationType_def criticalStep_def elevatedStep_def credentialsStep_def
      financialStep_def piiStep_def criticalCount_def elevatedCount_def credentialsCount_def
      financialCount_def piiCount_def writePermissions_def initialLocals_def Math_round_def
      breadthBonus_def productCategoriesOf_def newSet_def floor_half)

lemma Math_round_upper: "of_int (Math_round x) \<le> x + 1 / 2"
  unfolding Math_round_def by linarith

text \<open>
  Claim C6. For every non-empty selection the returned score is the accumulated score
  capped at 100, and the overall risk is \<open>High\<close> when the capped score is at least 45
  (the branch for at least 70 gives \<open>High\<close> too), \<open>Medium\<close> when it is at least 20 and
  below 45, and \<open>Low\<close> otherwise.
\<close>

theorem risk_classification_thresholds:
  assumes "selectedPermissions \<noteq> []"
  shows "score (generateRiskAssessment selectedPermissions)
           = min 100 (totalScore (finalLocals selectedPermissions))
     \<and> overallRisk (generateRiskAssessment selectedPermissions)
           = (if score (generateRiskAssessment selectedPermissions) \<ge> 45 then High
              else if score (generateRiskAssessment selectedPermissions) \<ge> 20 then Medium
              else Low)"
  using assms by (simp add: generateRiskAssessment_def Let_def)

theorem risk_classification_thresholds_witness:
  "[payout_operations, charge_operations] \<noteq> []
   \<and> totalScore (finalLocals [payout_operations, charge_operations]) = 30
   \<and> score (generateRiskAssessment [payout_operations, charge_operations]) = 30
   \<and> overallRisk (generateRiskAssessment [payout_operations, charge_operations]) = Medium"
proof -
  have t: "totalScore (finalLocals [payout_operations, charge_operations]) = 30" by code_simp
  from risk_classification_thresholds [of "[payout_operations, charge_operations]"] t
  show ?thesis by simp
qed

text \<open>
  Claim C1, as the code has it. The claim puts the read-only multiplier after all other
  accumulation, the breadth bonus included; the code multiplies in its third step
  and adds the breadth bonus in its fifth. On nine read-only records from nine product
  categories with no sensitive data the score is 10, while nothing was accumulated
  before the multiplier and the breadth bonus is the only addition.
\<close>

theorem readOnly_multiplier_counterexample:
  "isReadOnlyRole viewOnlyBroadSelection
   \<and> length viewOnlyBroadSelection = 9
   \<and> totalScore (beforeOperationType viewOnlyBroadSelection) = 0
   \<and> breadthBonus viewOnlyBroadSelection = 10
   \<and> score (generateRiskAssessment viewOnlyBroadSelection) = 10
   \<and> \<not> (of_int (score (generateRiskAssessment viewOnlyBroadSelection))
          \<le> (3 / 10 :: rat) * of_int (totalScore (beforeOperationType viewOnlyBroadSelection)
                                         + breadthBonus viewOnlyBroadSelection))"
proof -
  have a: "isReadOnlyRole viewOnlyBroadSelection" by code_simp
  have b: "length viewOnlyBroadSelection = 9" by code_simp
  have c: "totalScore (beforeOperationType viewOnlyBroadSelection) = 0" by code_simp
  have d: "breadthBonus viewOnlyBroadSelection = 10" by code_simp
  have e: "score (generateRiskAssessment viewOnlyBroadSelection) = 10" by code_simp
  from a b c d e show ?thesis by simp
qed

text \<open>
  Claim C1, amended. For every selection in which every member's operation type is
  \<open>Read-only\<close>, the score is the score accumulated by the risk-level and
  sensitivity steps, multiplied by 0.3 and rounded to the nearest integer, plus the
  breadth bonus (10 when the selection spans more than 8 product categories, 0
  otherwise), capped at 100. So the score is at most 30% of the score accumulated
  before the multiplier, plus one half for the rounding, plus the breadth bonus, which
  is added after the multiplier and is not reduced.
\<close>

theorem readOnly_score:
  assumes "\<forall>p \<in> set selectedPermissions. operationType p = ''Read-only''"
  shows "score (generateRiskAssessment selectedPermissions)
           = min 100 (Math_round (of_int (totalScore (beforeOperationType selectedPermissions)) * (3 / 10))
                      + breadthBonus selectedPermissions)
     \<and> (of_int (score (generateRiskAssessment selectedPermissions)) :: rat)
           \<le> of_int (totalScore (beforeOperationType selectedPermissions)) * (3 / 10) + 1 / 2
              + of_int (breadthBonus selectedPermissions)"
proof -
  let ?S = "totalScore (beforeOperationType selectedPermissions)"
  from assms have ro: "isReadOnlyRole selectedPermissions" by (simp add: isReadOnlyRole_iff)
  have sc: "score (generateRiskAssessment selectedPermissions)
      = min 100 (Math_round (of_int ?S * (3 / 10)) + breadthBonus selectedPermissions)"
  proof (cases "selectedPermissions = []")
    case True
    with empty_selection_score show ?thesis
      by (simp add: generateRiskAssessment_def)
  next
    case False
    with readOnly_totalScore [OF ro] show ?thesis
      by (simp add: generateRiskAssessment_def Let_def)
  qed
  have "score (generateRiskAssessment selectedPermissions)
      \<le> Math_round (of_int ?S * (3 / 10)) + breadthBonus selectedPermissions"
    by (simp add: sc)
  then have "(of_int (score (generateRiskAssessment selectedPermissions)) :: rat)
      \<le> of_int (Math_round (of_int ?S * (3 / 10))) + of_int (breadthBonus selectedPermissions)"
    by (metis of_int_add of_int_le_iff)
  with Math_round_upper [of "of_int ?S * (3 / 10)"] sc show ?thesis by linarith
qed

theorem readOnly_score_witness:
  "[accounts_kyc_basic, dashboard_baseline] \<noteq> []
   \<and> isReadOnlyRole [accounts_kyc_basic, dashboard_baseline]
   \<and> totalScore (beforeOperationType [accounts_kyc_basic, dashboard_baseline]) = 2
   \<and> breadthBonus [accounts_kyc_basic, dashboard_baseline] = 0
   \<and> score (generateRiskAssessment [accounts_kyc_basic, dashboard_baseline]) = 1"
proof -
  have ro: "isReadOnlyRole [accounts_kyc_basic, dashboard_baseline]" by code_simp
  then have h: "\<forall>p \<in> set [accounts_kyc_basic, dashboard_baseline]. operationType p = ''Read-only''"
    by (simp only: isReadOnlyRole_iff)
  have s: "totalScore (beforeOperationType [accounts_kyc_basic, dashboard_baseline]) = 2" by code_simp
  have b: "breadthBonus [accounts_kyc_basic, dashboard_baseline] = 0" by code_simp
  have r: "Math_round (2 * (3 / 10)) = 1" by code_simp
  from readOnly_score [OF h] ro s b r
  show ?thesis by simp
qed

text \<open>The assessment of the selection that holds one critical, write-only permission.\<close>

lemma balance_transfer_assessment:
  "generateRiskAssessment [balance_transfer_operations] =
     \<lparr>overallRisk = High, score = 45,
      factors =
        [\<lparr>name = ''Critical Operations'', level = High,
          factorDescription = ''1 permission can perform irreversible or high-impact actions'',
          count = 1\<rparr>,
         \<lparr>name = ''Financial Data'', level = High,
          factorDescription = ''Access to 1 permission with financial records'',
          count = 1\<rparr>,
         \<lparr>name = ''Write-Heavy Access'', level = Medium,
          factorDescription = ''100% of permissions allow modifications'',
          count = 1\<rparr>],
      warnings = [''Can transfer funds between accounts''],
      recommendations =
        [''Critical operations without team management - ensure proper oversight'',
         ''No read-only permissions - consider adding for audit visibility'']\<rparr>"
  by code_simp

lemma balance_transfer_record:
  "actions balance_transfer_operations = ''write''
   \<and> riskLevel balance_transfer_operations = ''Critical''
   \<and> hasFinancialData balance_transfer_operations
   \<and> balance_transfer_operations \<in> set permissions"
  by code_simp

text \<open>
  Claim C7. For the selection holding only \<open>balance_transfer_operations\<close> (actions
  \<open>write\<close>, risk level \<open>Critical\<close>, financial data) the assessment has a
  \<open>Critical Operations\<close> factor of level \<open>High\<close> and a \<open>Financial Data\<close> factor, warns
  \<open>Can transfer funds between accounts\<close>, scores at least 25 and is classified \<open>High\<close>.
  The score is 45: 25 for the critical permission, 10 for the financial data and 10
  for a write ratio above 0.7.
\<close>

theorem balance_transfer_alone:
  "actions balance_transfer_operations = ''write''
   \<and> riskLevel balance_transfer_operations = ''Critical''
   \<and> hasFinancialData balance_transfer_operations
   \<and> list_ex (\<lambda>f. name f = ''Critical Operations'' \<and> level f = High)
        (factors (generateRiskAssessment [balance_transfer_operations]))
   \<and> list_ex (\<lambda>f. name f = ''Financial Data'')
        (factors (generateRiskAssessment [balance_transfer_operations]))
   \<and> ''Can transfer funds between accounts''
        \<in> set (warnings (generateRiskAssessment [balance_transfer_operations]))
   \<and> score (generateRiskAssessment [balance_transfer_operations]) \<ge> 25
   \<and> score (generateRiskAssessment [balance_transfer_operations]) = 45
   \<and> overallRisk (generateRiskAssessment [balance_transfer_operations]) = High"
  using balance_transfer_record by (simp add: balance_transfer_assessment)

section \<open>The "cannot do" list\<close>

lemma customer_pii_operations_absent:
  "''customer_pii_operations'' \<notin> set (map apiName permissions)"
  by code_simp

lemma generateCannotDo_whole_catalog:
  "generateCannotDo permissions = [''View or edit customer personal information'']"
  by code_simp

text \<open>
  Claim C2. \<open>generateCannotDo\<close> returns at most 5 items for every input. For the input
  holding every permission of the catalog it returns one item, not the empty list:
  the table of notable permissions names \<open>customer_pii_operations\<close>, which is not a
  permission of the catalog, so no selection of catalog permissions takes its loss
  statement out of the candidates, and for the whole catalog it is the item that is
  left.
\<close>

theorem generateCannotDo_cap_and_whole_catalog:
  "length (generateCannotDo selectedPermissions) \<le> 5
   \<and> generateCannotDo permissions = [''View or edit customer personal information'']
   \<and> ''customer_pii_operations'' \<notin> set (map apiName permissions)"
  using customer_pii_operations_absent generateCannotDo_whole_catalog
  by (simp add: generateCannotDo_def Let_def)

theorem generateCannotDo_cap_and_whole_catalog_witness:
  "length (generateCannotDo [dashboard_baseline]) \<le> 5
   \<and> generateCannotDo [dashboard_baseline] =
       [''Invite, remove, or manage team member roles'', ''View or manage API keys and secrets'',
        ''Transfer funds between accounts'', ''Create or manage payouts'',
        ''Change security settings or 2FA'']"
proof -
  have e: "generateCannotDo [dashboard_baseline] =
       [''Invite, remove, or manage team member roles'', ''View or manage API keys and secrets'',
        ''Transfer funds between accounts'', ''Create or manage payouts'',
        ''Change security settings or 2FA'']" by code_simp
  from generateCannotDo_cap_and_whole_catalog [of "[dashboard_baseline]"] e show ?thesis by simp
qed

section \<open>Grouping\<close>

lemma pushTo_map_of:
  assumes "pushTo key p g = Inr g'"
  shows "map_of g' = (map_of g)(key \<mapsto> (case map_of g key of Some b \<Rightarrow> b | None \<Rightarrow> []) @ [p])"
  using assms
  by (auto simp: pushTo_def getProperty_def update_conv' split: option.splits if_splits)

lemma inBucket_pushTo:
  assumes "pushTo key p g = Inr g'"
  shows "inBucket g' label q \<longleftrightarrow> inBucket g label q \<or> (label = key \<and> q = p)"
  using pushTo_map_of [OF assms]
  by (auto simp: inBucket_def split: option.splits)

lemma pushTo_returns:
  assumes "key \<notin> set objectPrototypeKeys"
  shows "\<exists>g'. pushTo key p g = Inr g'"
  using assms by (simp add: pushTo_def getProperty_def split: option.splits)

lemma bucketTotal_update_new:
  "map_of g k = None \<Longrightarrow> bucketTotal (AList.update k v g) = bucketTotal g + length v"
  by (induction g) (auto simp: bucketTotal_def split: if_splits)

lemma bucketTotal_update_old:
  "map_of g k = Some b \<Longrightarrow> bucketTotal (AList.update k v g) + length b = bucketTotal g + length v"
  by (induction g) (auto simp: bucketTotal_def split: if_splits)

lemma bucketTotal_pushTo:
  assumes "pushTo key p g = Inr g'"
  shows "bucketTotal g' = Suc (bucketTotal g)"
proof (cases "map_of g key")
  case None
  with assms show ?thesis
    by (auto simp: pushTo_def getProperty_def bucketTotal_update_new split: if_splits)
next
  case (Some b)
  with assms bucketTotal_update_old [OF Some, of "b @ [p]"] show ?thesis
    by (auto simp: pushTo_def getProperty_def)
qed

lemma keys_pushTo:
  assumes "pushTo key p g = Inr g'"
  shows "distinct (map fst g) \<Longrightarrow> distinct (map fst g')"
  using assms
  by (auto simp: pushTo_def getProperty_def distinct_update split: option.splits if_splits)

lemma inBucket_pushAll:
  "pushAll keys p g = Inr g' \<Longrightarrow>
     inBucket g' label q \<longleftrightarrow> inBucket g label q \<or> (label \<in> set keys \<and> q = p)"
proof (induction keys arbitrary: g)
  case Nil
  then show ?case by simp
next
  case (Cons k keys)
  from Cons.prems obtain g1 where g1: "pushTo k p g = Inr g1" and rest: "pushAll keys p g1 = Inr g'"
    by (auto split: sum.splits)
  from Cons.IH [OF rest] inBucket_pushTo [OF g1] show ?case by auto
qed

lemma bucketTotal_pushAll:
  "pushAll keys p g = Inr g' \<Longrightarrow> bucketTotal g' = bucketTotal g + length keys"
proof (induction keys arbitrary: g)
  case Nil
  then show ?case by simp
next
  case (Cons k keys)
  from Cons.prems obtain g1 where g1: "pushTo k p g = Inr g1" and rest: "pushAll keys p g1 = Inr g'"
    by (auto split: sum.splits)
  from Cons.IH [OF rest] bucketTotal_pushTo [OF g1] show ?case by simp
qed

lemma keys_pushAll:
  "pushAll keys p g = Inr g' \<Longrightarrow> distinct (map fst g) \<Longrightarrow> distinct (map fst g')"
proof (induction keys arbitrary: g)
  case Nil
  then show ?case by simp
next
  case (Cons k keys)
  from Cons.prems obtain g1 where g1: "pushTo k p g = Inr g1" and rest: "pushAll keys p g1 = Inr g'"
    by (auto split: sum.splits)
  from Cons.IH [OF rest] keys_pushTo [OF g1] Cons.prems(2) show ?case by simp
qed

lemma pushAll_returns:
  "\<forall>k \<in> set keys. k \<notin> set objectPrototypeKeys \<Longrightarrow> \<exists>g'. pushAll keys p g = Inr g'"
proof (induction keys arbitrary: g)
  case Nil
  then show ?case by simp
next
  case (Cons k keys)
  then obtain g1 where g1: "pushTo k p g = Inr g1"
    using pushTo_returns [of k p g] by auto
  with Cons show ?case by simp
qed

lemma groupStep_groupKeys: "groupStep groupBy p g = pushAll (groupKeys groupBy p) p g"
  by (simp add: groupStep_def groupKeys_def split: sum.splits)

lemma inBucket_groupLoop:
  "groupLoop groupBy perms g = Inr g' \<Longrightarrow>
     inBucket g' label q \<longleftrightarrow>
       inBucket g label q \<or> (q \<in> set perms \<and> label \<in> set (groupKeys groupBy q))"
proof (induction perms arbitrary: g)
  case Nil
  then show ?case by simp
next
  case (Cons p perms)
  from Cons.prems obtain g1 where g1: "pushAll (groupKeys groupBy p) p g = Inr g1"
    and rest: "groupLoop groupBy perms g1 = Inr g'"
    by (auto simp: groupStep_groupKeys split: sum.splits)
  from Cons.IH [OF rest] inBucket_pushAll [OF g1] show ?case by auto
qed

lemma bucketTotal_groupLoop:
  "groupLoop groupBy perms g = Inr g' \<Longrightarrow>
     bucketTotal g' = bucketTotal g + sum_list (map (\<lambda>p. length (groupKeys groupBy p)) perms)"
proof (induction perms arbitrary: g)
  case Nil
  then show ?case by simp
next
  case (Cons p perms)
  from Cons.prems obtain g1 where g1: "pushAll (groupKeys groupBy p) p g = Inr g1"
    and rest: "groupLoop groupBy perms g1 = Inr g'"
    by (auto simp: groupStep_groupKeys split: sum.splits)
  from Cons.IH [OF rest] bucketTotal_pushAll [OF g1] show ?case by simp
qed

lemma keys_groupLoop:
  "groupLoop groupBy perms g = Inr g' \<Longrightarrow> distinct (map fst g) \<Longrightarrow> distinct (map fst g')"
proof (induction perms arbitrary: g)
  case Nil
  then show ?case by simp
next
  case (Cons p perms)
  from Cons.prems obtain g1 where g1: "pushAll (groupKeys groupBy p) p g = Inr g1"
    and rest: "groupLoop groupBy perms g1 = Inr g'"
    by (auto simp: groupStep_groupKeys split: sum.splits)
  from Cons.IH [OF rest] keys_pushAll [OF g1] Cons.prems(2) show ?case by simp
qed

lemma groupLoop_returns:
  "\<forall>p \<in> set perms. \<forall>k \<in> set (groupKeys groupBy p). k \<notin> set objectPrototypeKeys \<Longrightarrow>
     \<exists>g'. groupLoop groupBy perms g = Inr g'"
proof (induction perms arbitrary: g)
  case Nil
  then show ?case by simp
next
  case (Cons p perms)
  then obtain g1 where g1: "pushAll (groupKeys groupBy p) p g = Inr g1"
    using pushAll_returns [of "groupKeys groupBy p" p g] by auto
  with Cons show ?case by (simp add: groupStep_groupKeys)
qed

lemma getSensitivityGroups_cases:
  "set (getSensitivityGroups p) =
     (if hasPII p then {''PII''} else {}) \<union>
     (if hasFinancialData p then {''Financial Data''} else {}) \<union>
     (if hasPaymentCredentials p then {''Payment Credentials''} else {}) \<union>
     (if \<not> hasPII p \<and> \<not> hasFinancialData p \<and> \<not> hasPaymentCredentials p then {''Non-sensitive''} else {})"
  by (auto simp: getSensitivityGroups_def Let_def)

lemma getSensitivityGroups_nonempty: "1 \<le> length (getSensitivityGroups p)"
  by (simp add: getSensitivityGroups_def Let_def)

lemma getSensitivityGroups_safe: "k \<in> set (getSensitivityGroups p) \<Longrightarrow> k \<notin> set objectPrototypeKeys"
  by (auto simp: getSensitivityGroups_cases objectPrototypeKeys_def split: if_splits)

lemma length_le_sum_keys:
  "(\<And>p. 1 \<le> length (f p)) \<Longrightarrow> length perms \<le> sum_list (map (\<lambda>p. length (f p)) perms)"
proof (induction perms)
  case Nil
  then show ?case by simp
next
  case (Cons p perms)
  from Cons.prems [of p] Cons.IH [OF Cons.prems] show ?case by simp
qed

text \<open>
  Claim C5. Grouping by sensitivity returns for every input list, and in the grouping
  it returns: the bucket lengths sum to at least the input length; a permission of
  the input is in the \<open>Non-sensitive\<close> bucket if and only if its three flags are all
  false; and a permission of the input with exactly \<open>hasPII\<close> and
  \<open>hasFinancialData\<close> set is in the buckets \<open>PII\<close> and \<open>Financial Data\<close> and in no
  other bucket. The labels of the grouping are pairwise distinct, so its entries are
  its buckets.
\<close>

theorem sensitivity_grouping:
  "\<exists>g. groupPermissions perms ''sensitivity'' = Inr g
     \<and> distinct (map fst g)
     \<and> length perms \<le> bucketTotal g
     \<and> (\<forall>p \<in> set perms. inBucket g ''Non-sensitive'' p
           \<longleftrightarrow> (\<not> hasPII p \<and> \<not> hasFinancialData p \<and> \<not> hasPaymentCredentials p))
     \<and> (\<forall>p \<in> set perms. hasPII p \<and> hasFinancialData p \<and> \<not> hasPaymentCredentials p
           \<longrightarrow> (\<forall>label. inBucket g label p \<longleftrightarrow> label = ''PII'' \<or> label = ''Financial Data''))"
proof -
  have keys: "groupKeys ''sensitivity'' p = getSensitivityGroups p" for p
    by (simp add: groupKeys_def)
  have "\<forall>p \<in> set perms. \<forall>k \<in> set (groupKeys ''sensitivity'' p). k \<notin> set objectPrototypeKeys"
    by (simp add: keys getSensitivityGroups_safe)
  from groupLoop_returns [OF this, of "[]"] obtain g where g: "groupLoop ''sensitivity'' perms [] = Inr g"
    by blast
  have mem: "inBucket g label q \<longleftrightarrow> q \<in> set perms \<and> label \<in> set (getSensitivityGroups q)" for label q
    using inBucket_groupLoop [OF g, of label q] by (simp add: keys inBucket_def)
  have tot: "length perms \<le> bucketTotal g"
    using bucketTotal_groupLoop [OF g]
      length_le_sum_keys [of getSensitivityGroups perms, OF getSensitivityGroups_nonempty]
    by (simp add: keys bucketTotal_def)
  have dist: "distinct (map fst g)"
    using keys_groupLoop [OF g] by simp
  have non: "\<forall>p \<in> set perms. inBucket g ''Non-sensitive'' p
           \<longleftrightarrow> (\<not> hasPII p \<and> \<not> hasFinancialData p \<and> \<not> hasPaymentCredentials p)"
    by (simp add: mem getSensitivityGroups_cases)
  have two: "\<forall>p \<in> set perms. hasPII p \<and> hasFinancialData p \<and> \<not> hasPaymentCredentials p
           \<longrightarrow> (\<forall>label. inBucket g label p \<longleftrightarrow> label = ''PII'' \<or> label = ''Financial Data'')"
    by (auto simp: mem getSensitivityGroups_cases)
  from g dist tot non two show ?thesis
    unfolding groupPermissions_def by blast
qed

theorem sensitivity_grouping_witness:
  "hasPII tax_filing_operations \<and> hasFinancialData tax_filing_operations
   \<and> \<not> hasPaymentCredentials tax_filing_operations
   \<and> \<not> hasPII dashboard_baseline \<and> \<not> hasFinancialData dashboard_baseline
   \<and> \<not> hasPaymentCredentials dashboard_baseline
   \<and> (\<exists>g. groupPermissions [dashboard_baseline, tax_filing_operations] ''sensitivity'' = Inr g
         \<and> 2 \<le> bucketTotal g
         \<and> inBucket g ''Non-sensitive'' dashboard_baseline
         \<and> \<not> inBucket g ''Non-sensitive'' tax_filing_operations
         \<and> inBucket g ''PII'' tax_filing_operations
         \<and> inBucket g ''Financial Data'' tax_filing_operations
         \<and> \<not> inBucket g ''Payment Credentials'' tax_filing_operations)"
proof -
  have t: "hasPII tax_filing_operations \<and> hasFinancialData tax_filing_operations
      \<and> \<not> hasPaymentCredentials tax_filing_operations"
    by (simp add: tax_filing_operations_def)
  have d: "\<not> hasPII dashboard_baseline \<and> \<not> hasFinancialData dashboard_baseline
      \<and> \<not> hasPaymentCredentials dashboard_baseline"
    by (simp add: dashboard_baseline_def)
  from sensitivity_grouping [of "[dashboard_baseline, tax_filing_operations]"]
  obtain g where g: "groupPermissions [dashboard_baseline, tax_filing_operations] ''sensitivity'' = Inr g"
    and tot: "length [dashboard_baseline, tax_filing_operations] \<le> bucketTotal g"
    and non: "\<forall>p \<in> set [dashboard_baseline, tax_filing_operations]. inBucket g ''Non-sensitive'' p
           \<longleftrightarrow> (\<not> hasPII p \<and> \<not> hasFinancialData p \<and> \<not> hasPaymentCredentials p)"
    and two: "\<forall>p \<in> set [dashboard_baseline, tax_filing_operations].
           hasPII p \<and> hasFinancialData p \<and> \<not> hasPaymentCredentials p
           \<longrightarrow> (\<forall>label. inBucket g label p \<longleftrightarrow> label = ''PII'' \<or> label = ''Financial Data'')"
    by blast
  from non d have n1: "inBucket g ''Non-sensitive'' dashboard_baseline" by simp
  from non t have n2: "\<not> inBucket g ''Non-sensitive'' tax_filing_operations" by simp
  from two t have all: "\<forall>label. inBucket g label tax_filing_operations
      \<longleftrightarrow> label = ''PII'' \<or> label = ''Financial Data''" by simp
  then have p1: "inBucket g ''PII'' tax_filing_operations"
    and p2: "inBucket g ''Financial Data'' tax_filing_operations"
    and p3: "\<not> inBucket g ''Payment Credentials'' tax_filing_operations" by simp_all
  from tot have tot2: "2 \<le> bucketTotal g" by simp
  from t d g tot2 n1 n2 p1 p2 p3 show ?thesis by blast
qed

text \<open>
  Claim C3, as the code has it. The claim has the grouping fail with an
  \<open>InvalidArgument\<close> error for a dimension outside the five. The code has no such
  failure: a dimension that is none of \<open>taskCategory\<close>, \<open>sensitivity\<close>,
  \<open>operationType\<close>, \<open>riskLevel\<close> takes the last branch, the one \<open>productCategory\<close>
  takes, and files each permission under the string form of \<open>p[groupBy]\<close>. With the
  dimension \<open>alphabetical\<close>, which names no property, every permission lands in one
  bucket labelled \<open>undefined\<close>.
\<close>

theorem groupPermissions_unrecognized_counterexample:
  "''alphabetical'' \<notin> set GroupByOption
   \<and> groupPermissions [dashboard_baseline, charge] ''alphabetical''
       = Inr [(''undefined'', [dashboard_baseline, charge])]"
  by code_simp

text \<open>
  Claim C3, amended. For every permission list and every dimension that is not one of
  the five, the grouping does not fail for the dimension: it returns the grouping in
  which each permission of the list is in exactly the bucket labelled with the string
  form of its property of that name (\<open>undefined\<close> when it has none). The only failure
  the function has is the \<open>TypeError\<close> of a label that is the name of a member
  inherited from \<open>Object.prototype\<close>, which the second hypothesis excludes; only the
  type \<open>GroupByOption\<close> keeps other dimensions out.
\<close>

theorem groupPermissions_unrecognized:
  assumes "groupBy \<notin> set GroupByOption"
    and "\<forall>p \<in> set perms. propertyKey p groupBy \<notin> set objectPrototypeKeys"
  shows "\<exists>g. groupPermissions perms groupBy = Inr g
     \<and> (\<forall>label q. inBucket g label q \<longleftrightarrow> q \<in> set perms \<and> label = propertyKey q groupBy)"
proof -
  from assms(1) have keys: "groupKeys groupBy p = [propertyKey p groupBy]" for p
    by (simp add: groupKeys_def GroupByOption_def)
  from assms(2) have "\<forall>p \<in> set perms. \<forall>k \<in> set (groupKeys groupBy p). k \<notin> set objectPrototypeKeys"
    by (simp add: keys)
  from groupLoop_returns [OF this, of "[]"] obtain g where g: "groupLoop groupBy perms [] = Inr g"
    by blast
  have "inBucket g label q \<longleftrightarrow> q \<in> set perms \<and> label = propertyKey q groupBy" for label q
    using inBucket_groupLoop [OF g, of label q] by (simp add: keys inBucket_def)
  with g show ?thesis unfolding groupPermissions_def by blast
qed

theorem groupPermissions_unrecognized_witness:
  "''apiName'' \<notin> set GroupByOption
   \<and> propertyKey dashboard_baseline ''apiName'' = ''dashboard_baseline''
   \<and> propertyKey charge ''apiName'' = ''charge''
   \<and> (\<exists>g. groupPermissions [dashboard_baseline, charge] ''apiName'' = Inr g
         \<and> inBucket g ''charge'' charge \<and> \<not> inBucket g ''charge'' dashboard_baseline
         \<and> inBucket g ''dashboard_baseline'' dashboard_baseline)"
proof -
  have a: "''apiName'' \<notin> set GroupByOption" by code_simp
  have kd: "propertyKey dashboard_baseline ''apiName'' = ''dashboard_baseline''" by code_simp
  have kc: "propertyKey charge ''apiName'' = ''charge''" by code_simp
  have ne: "dashboard_baseline \<noteq> charge" using kd kc by auto
  have safe: "\<forall>p \<in> set [dashboard_baseline, charge].
      propertyKey p ''apiName'' \<notin> set objectPrototypeKeys"
    by (simp add: kd kc objectPrototypeKeys_def)
  from groupPermissions_unrecognized [OF a safe]
  obtain g where g: "groupPermissions [dashboard_baseline, charge] ''apiName'' = Inr g"
    and mem: "\<forall>label q. inBucket g label q
        \<longleftrightarrow> q \<in> set [dashboard_baseline, charge] \<and> label = propertyKey q ''apiName''"
    by blast
  from mem kc have m1: "inBucket g ''charge'' charge" by simp
  from mem kd ne have m2: "\<not> inBucket g ''charge'' dashboard_baseline" by simp
  from mem kd have m3: "inBucket g ''dashboard_baseline'' dashboard_baseline" by simp
  from a kd kc g m1 m2 m3 show ?thesis by blast
qed

section \<open>What the access resolver writes\<close>

lemma mapAdjust_store:
  assumes "\<forall>r \<in> set refs. r < length s" and "mapAdjust roleId refs s = (out, s')"
  shows "(\<exists>new. s' = s @ new) \<and> length out = length refs \<and> (\<forall>r \<in> set out. r < length s')
     \<and> map (\<lambda>r. s' ! r) out = map (\<lambda>r. adjustForRole roleId (s ! r)) refs"
  using assms
proof (induction refs arbitrary: s out s')
  case Nil
  then show ?case by simp
next
  case (Cons r refs)
  let ?p = "s ! r"
  show ?case
  proof (cases "getProperty (roleAccess ?p) roleId = Own ''read'' \<and> operationType ?p \<noteq> ''Read-only''")
    case True
    let ?copy = "?p\<lparr>operationType := ''Read-only'', actions := ''read''\<rparr>"
    obtain out1 s1 where rest: "mapAdjust roleId refs (s @ [?copy]) = (out1, s1)"
      by (cases "mapAdjust roleId refs (s @ [?copy])") auto
    with True Cons.prems(2) have o: "out = length s # out1" and s1: "s' = s1"
      by (auto simp: alloc_def Let_def)
    have valid: "\<forall>r \<in> set refs. r < length (s @ [?copy])"
      using Cons.prems(1) by auto
    from Cons.IH [OF valid rest] obtain new where new: "s1 = (s @ [?copy]) @ new"
      and len: "length out1 = length refs"
      and inb: "\<forall>r \<in> set out1. r < length s1"
      and view: "map (\<lambda>r. s1 ! r) out1 = map (\<lambda>r. adjustForRole roleId ((s @ [?copy]) ! r)) refs"
      by blast
    have same: "map (\<lambda>r. adjustForRole roleId ((s @ [?copy]) ! r)) refs
        = map (\<lambda>r. adjustForRole roleId (s ! r)) refs"
      using Cons.prems(1) by (auto simp: nth_append)
    have here: "s1 ! length s = adjustForRole roleId ?p"
      using True by (simp add: new adjustForRole_def nth_append)
    from new have ext: "s' = s @ (?copy # new)" by (simp add: s1)
    from o s1 len inb view same here ext show ?thesis
      by (auto simp: new)
  next
    case False
    obtain out1 s1 where rest: "mapAdjust roleId refs s = (out1, s1)"
      by (cases "mapAdjust roleId refs s") auto
    with False Cons.prems(2) have o: "out = r # out1" and s1: "s' = s1"
      by (auto simp: Let_def)
    have valid: "\<forall>r \<in> set refs. r < length s"
      using Cons.prems(1) by auto
    from Cons.IH [OF valid rest] obtain new where new: "s1 = s @ new"
      and len: "length out1 = length refs"
      and inb: "\<forall>r \<in> set out1. r < length s1"
      and view: "map (\<lambda>r. s1 ! r) out1 = map (\<lambda>r. adjustForRole roleId (s ! r)) refs"
      by blast
    have r: "r < length s" using Cons.prems(1) by simp
    have here: "s1 ! r = adjustForRole roleId ?p"
      using False r by (auto simp: new adjustForRole_def nth_append)
    from o s1 len inb view here new r show ?thesis
      by (auto simp: nth_append)
  qed
qed

lemma catalog_filter_refs:
  "map (\<lambda>r. permissions ! r) (filter (\<lambda>r. P (permissions ! r)) [0..<length permissions])
     = filter P permissions"
proof -
  have "map (\<lambda>r. xs ! r) (filter (\<lambda>r. P (xs ! r)) [0..<length xs]) = filter P xs" for xs :: "Permission list"
    by (metis (mono_tags, lifting) filter_map map_nth comp_def filter_cong)
  then show ?thesis .
qed

text \<open>
  Claim C9. For every role id, \<open>getPermissionsForRole\<close> leaves the catalog unchanged.
  Run on the store that holds the catalog, the call ends in a store whose catalog
  addresses hold the records they held before, so in particular their operation type
  and actions; the records with the read override are new objects behind the catalog,
  and reading the returned array through the final store gives the view with the
  override.
\<close>

theorem getPermissionsForRole_frame:
  "\<exists>out s'. getPermissionsForRole_store roleId catalogRefs catalogStore = (out, s')
     \<and> (\<forall>r \<in> set catalogRefs. s' ! r = catalogStore ! r)
     \<and> take (length catalogStore) s' = catalogStore
     \<and> map (\<lambda>r. s' ! r) out = getPermissionsForRole roleId"
proof -
  let ?kept = "filter (\<lambda>r. truthy (getProperty (roleAccess (catalogStore ! r)) roleId)) catalogRefs"
  obtain out s' where run: "mapAdjust roleId ?kept catalogStore = (out, s')"
    by (cases "mapAdjust roleId ?kept catalogStore") auto
  have valid: "\<forall>r \<in> set ?kept. r < length catalogStore"
    by (simp add: catalogRefs_def catalogStore_def)
  from mapAdjust_store [OF valid run] obtain new where new: "s' = catalogStore @ new"
    and view: "map (\<lambda>r. s' ! r) out = map (\<lambda>r. adjustForRole roleId (catalogStore ! r)) ?kept"
    by blast
  have frame: "\<forall>r \<in> set catalogRefs. s' ! r = catalogStore ! r"
    by (simp add: new catalogRefs_def catalogStore_def nth_append)
  have prefix: "take (length catalogStore) s' = catalogStore"
    by (simp add: new)
  have "map (\<lambda>r. adjustForRole roleId (catalogStore ! r)) ?kept
      = map (adjustForRole roleId) (map (\<lambda>r. permissions ! r) ?kept)"
    by (simp add: catalogStore_def comp_def)
  also have "map (\<lambda>r. permissions ! r) ?kept
      = filter (\<lambda>p. truthy (getProperty (roleAccess p) roleId)) permissions"
    unfolding catalogStore_def catalogRefs_def by (rule catalog_filter_refs)
  finally have "map (\<lambda>r. s' ! r) out = getPermissionsForRole roleId"
    using view by (simp add: getPermissionsForRole_def)
  with run frame prefix show ?thesis
    unfolding getPermissionsForRole_store_def by blast
qed

theorem getPermissionsForRole_frame_witness:
  "1 \<in> set catalogRefs \<and> catalogStore ! 1 = account_operations
   \<and> operationType account_operations = ''Read + Write''
   \<and> (\<exists>out s'. getPermissionsForRole_store ''sandbox_admin'' catalogRefs catalogStore = (out, s')
         \<and> s' ! 1 = account_operations
         \<and> map (\<lambda>r. apiName (s' ! r)) out
              = [''account_operations'', ''sandbox_creation'', ''dashboard_baseline'']
         \<and> map (\<lambda>r. operationType (s' ! r)) out = [''Read-only'', ''Write'', ''Read-only''])"
proof -
  have r: "1 \<in> set catalogRefs" by code_simp
  have c: "catalogStore ! 1 = account_operations" by (simp add: catalogStore_def permissions_def)
  have o: "operationType account_operations = ''Read + Write''" by (simp add: account_operations_def)
  have n: "map apiName (getPermissionsForRole ''sandbox_admin'')
      = [''account_operations'', ''sandbox_creation'', ''dashboard_baseline'']" by code_simp
  have t: "map operationType (getPermissionsForRole ''sandbox_admin'')
      = [''Read-only'', ''Write'', ''Read-only'']" by code_simp
  from getPermissionsForRole_frame [of "''sandbox_admin''"]
  obtain out s' where run: "getPermissionsForRole_store ''sandbox_admin'' catalogRefs catalogStore = (out, s')"
    and frame: "\<forall>r \<in> set catalogRefs. s' ! r = catalogStore ! r"
    and view: "map (\<lambda>r. s' ! r) out = getPermissionsForRole ''sandbox_admin''"
    by blast
  from frame r c have same: "s' ! 1 = account_operations" by simp
  have "map (\<lambda>r. apiName (s' ! r)) out = map apiName (map (\<lambda>r. s' ! r) out)"
    by (simp add: comp_def)
  with view n have names: "map (\<lambda>r. apiName (s' ! r)) out
      = [''account_operations'', ''sandbox_creation'', ''dashboard_baseline'']" by simp
  have "map (\<lambda>r. operationType (s' ! r)) out = map operationType (map (\<lambda>r. s' ! r) out)"
    by (simp add: comp_def)
  with view t have types: "map (\<lambda>r. operationType (s' ! r)) out
      = [''Read-only'', ''Write'', ''Read-only'']" by simp
  from run same names types
  have "\<exists>out s'. getPermissionsForRole_store ''sandbox_admin'' catalogRefs catalogStore = (out, s')
         \<and> s' ! 1 = account_operations
         \<and> map (\<lambda>r. apiName (s' ! r)) out
              = [''account_operations'', ''sandbox_creation'', ''dashboard_baseline'']
         \<and> map (\<lambda>r. operationType (s' ! r)) out = [''Read-only'', ''Write'', ''Read-only'']"
    by (intro exI [of _ out] exI [of _ s'] conjI)
  with r c o show ?thesis by (intro conjI)
qed

section \<open>The "can do" list\<close>

lemma setAdd_idem: "setAdd (setAdd s x) x = setAdd s x"
  by (simp add: setAdd_def)

lemma descsOf_addDescription:
  assumes "addDescription tc desc tg = Inr tg'"
  shows "descsOf tg' t = (if t = tc then setAdd (descsOf tg t) desc else descsOf tg t)"
  using assms
  by (auto simp: addDescription_def getProperty_def descsOf_def update_conv'
      split: option.splits if_splits)

lemma descsOf_addDescriptions:
  "addDescriptions tcs desc tg = Inr tg' \<Longrightarrow>
     descsOf tg' t = (if t \<in> set tcs then setAdd (descsOf tg t) desc else descsOf tg t)"
proof (induction tcs arbitrary: tg)
  case Nil
  then show ?case by simp
next
  case (Cons tc tcs)
  from Cons.prems obtain tg1 where one: "addDescription tc desc tg = Inr tg1"
    and rest: "addDescriptions tcs desc tg1 = Inr tg'"
    by (auto split: sum.splits)
  from Cons.IH [OF rest] descsOf_addDescription [OF one, of t] show ?case
    by (auto simp: setAdd_idem)
qed

lemma descsOf_collectTaskGroups:
  "collectTaskGroups perms tg = Inr tg' \<Longrightarrow>
     descsOf tg' t =
       foldl setAdd (descsOf tg t) (map descriptionOf (filter (\<lambda>p. t \<in> set (taskCategories p)) perms))"
proof (induction perms arbitrary: tg)
  case Nil
  then show ?case by simp
next
  case (Cons p perms)
  from Cons.prems obtain tg1 where one: "addDescriptions (taskCategories p) (descriptionOf p) tg = Inr tg1"
    and rest: "collectTaskGroups perms tg1 = Inr tg'"
    by (auto split: sum.splits)
  from Cons.IH [OF rest] descsOf_addDescriptions [OF one, of t] show ?case by simp
qed

lemma addDescription_returns:
  "tc \<notin> set objectPrototypeKeys \<Longrightarrow> \<exists>tg'. addDescription tc desc tg = Inr tg'"
  by (simp add: addDescription_def getProperty_def split: option.splits)

lemma addDescriptions_returns:
  "\<forall>tc \<in> set tcs. tc \<notin> set objectPrototypeKeys \<Longrightarrow> \<exists>tg'. addDescriptions tcs desc tg = Inr tg'"
proof (induction tcs arbitrary: tg)
  case Nil
  then show ?case by simp
next
  case (Cons tc tcs)
  then obtain tg1 where "addDescription tc desc tg = Inr tg1"
    using addDescription_returns [of tc desc tg] by auto
  with Cons show ?case by simp
qed

lemma collectTaskGroups_returns:
  "\<forall>p \<in> set perms. \<forall>tc \<in> set (taskCategories p). tc \<notin> set objectPrototypeKeys \<Longrightarrow>
     \<exists>tg'. collectTaskGroups perms tg = Inr tg'"
proof (induction perms arbitrary: tg)
  case Nil
  then show ?case by simp
next
  case (Cons p perms)
  then obtain tg1 where "addDescriptions (taskCategories p) (descriptionOf p) tg = Inr tg1"
    using addDescriptions_returns [of "taskCategories p" "descriptionOf p" tg] by auto
  with Cons show ?case by simp
qed

lemma priorityTasks_own: "task \<in> set priorityTasks \<Longrightarrow> task \<notin> set objectPrototypeKeys"
  by (auto simp: priorityTasks_def objectPrototypeKeys_def)

lemma priorityBullets_descsOf:
  assumes "task \<notin> set objectPrototypeKeys"
  shows "priorityBullets tg task =
     (if length (descsOf tg task) > 2
      then [task @ '' ('' @ showNat (length (descsOf tg task)) @ '' capabilities)'']
      else descsOf tg task)"
  using assms
  by (auto simp: priorityBullets_def getProperty_def descsOf_def split: option.splits)

lemma dedupe_fresh:
  "distinct (map toLowerCase (dedupe seen items))
   \<and> set (map toLowerCase (dedupe seen items)) \<inter> set seen = {}"
proof (induction items arbitrary: seen)
  case Nil
  show ?case by simp
next
  case (Cons item items)
  show ?case
  proof (cases "toLowerCase item \<in> set seen")
    case True
    with Cons [of seen] show ?thesis by (simp add: Let_def)
  next
    case False
    with Cons [of "seen @ [toLowerCase item]"] show ?thesis
      by (auto simp: Let_def setAdd_def)
  qed
qed

lemma distinct_lower_take: "distinct (map toLowerCase xs) \<Longrightarrow> distinct (map toLowerCase (take n xs))"
  by (metis distinct_take take_map)

lemma descriptionsFor_distinct_descriptions:
  assumes "distinct (map descriptionOf perms)"
  shows "descriptionsFor perms task = map descriptionOf (sharingTask perms task)"
proof -
  have d: "distinct xs \<Longrightarrow> set acc \<inter> set xs = {} \<Longrightarrow> foldl setAdd acc xs = acc @ xs" for acc xs :: "string list"
    by (induction xs arbitrary: acc) (auto simp: setAdd_def)
  have "distinct (map descriptionOf (sharingTask perms task))"
    using assms by (simp add: distinct_map_filter sharingTask_def)
  from d [OF this, of "[]"] show ?thesis
    by (simp add: descriptionsFor_def newSet_def)
qed

subsection \<open>Selections of the catalog\<close>

lemma catalog_descriptions_distinct: "distinct (map descriptionOf permissions)"
  by code_simp

lemma catalog_descriptions_nonempty: "list_all (\<lambda>p. description p \<noteq> []) permissions"
  by code_simp

lemma catalog_taskCategories_own:
  "list_all (\<lambda>p. list_all (\<lambda>tc. tc \<notin> set objectPrototypeKeys) (taskCategories p)) permissions"
  by code_simp

lemma catalog_descriptions_ascii: "list_all (\<lambda>p. isAscii (description p)) permissions"
  by code_simp

lemma priorityTasks_ascii: "list_all isAscii priorityTasks"
  by code_simp

lemma subseq_members: "subseq xs ys \<Longrightarrow> set xs \<subseteq> set ys"
  by (auto dest: list_emb_set)

lemma subseq_distinct_map:
  assumes "subseq xs ys" and "distinct (map f ys)"
  shows "distinct (map f xs)"
proof -
  have "subseq us vs \<Longrightarrow> distinct vs \<Longrightarrow> distinct us" for us vs :: "'b list"
    by (induction rule: list_emb.induct) (auto dest: list_emb_set)
  from this [OF subseq_map [OF assms(1), of f] assms(2)] show ?thesis .
qed

lemma catalog_descriptionOf:
  assumes "subseq perms permissions" and "p \<in> set perms"
  shows "descriptionOf p = description p" and "isAscii (description p)"
    and "\<forall>tc \<in> set (taskCategories p). tc \<notin> set objectPrototypeKeys"
proof -
  from assms subseq_members have p: "p \<in> set permissions" by blast
  with catalog_descriptions_nonempty show "descriptionOf p = description p"
    by (auto simp: list_all_iff descriptionOf_def)
  from p catalog_descriptions_ascii show "isAscii (description p)"
    by (auto simp: list_all_iff)
  from p catalog_taskCategories_own
  show "\<forall>tc \<in> set (taskCategories p). tc \<notin> set objectPrototypeKeys"
    by (auto simp: list_all_iff)
qed

lemma catalog_descriptionsFor:
  assumes "subseq perms permissions"
  shows "descriptionsFor perms task = map description (sharingTask perms task)"
proof -
  have "distinct (map descriptionOf perms)"
    using subseq_distinct_map [OF assms catalog_descriptions_distinct] .
  then have "descriptionsFor perms task = map descriptionOf (sharingTask perms task)"
    by (rule descriptionsFor_distinct_descriptions)
  also have "\<dots> = map description (sharingTask perms task)"
    using catalog_descriptionOf(1) [OF assms] by (simp add: sharingTask_def)
  finally show ?thesis .
qed

lemma priorityBullets_taskBullets:
  assumes "subseq perms permissions" and "collectTaskGroups perms [] = Inr tg"
    and "task \<in> set priorityTasks"
  shows "priorityBullets tg task = taskBullets perms task"
proof -
  have "descsOf tg task = descriptionsFor perms task"
    using descsOf_collectTaskGroups [OF assms(2), of task]
    by (simp add: descsOf_def descriptionsFor_def newSet_def sharingTask_def)
  then have "descsOf tg task = map description (sharingTask perms task)"
    by (simp add: catalog_descriptionsFor [OF assms(1)])
  with priorityBullets_descsOf [OF priorityTasks_own [OF assms(3)], of tg] show ?thesis
    by (simp add: taskBullets_def)
qed

subsection \<open>The strings that are case-folded are ASCII\<close>

lemma isAscii_append [simp]: "isAscii (xs @ ys) \<longleftrightarrow> isAscii xs \<and> isAscii ys"
  by (simp add: isAscii_def)

lemma isAscii_Cons [simp]: "isAscii (c # cs) \<longleftrightarrow> \<not> digit7 c \<and> isAscii cs"
  by (simp add: isAscii_def)

lemma isAscii_Nil [simp]: "isAscii []"
  by (simp add: isAscii_def)

lemma digitChar_ascii: "d < 10 \<Longrightarrow> \<not> digit7 (digitChar d)"
proof -
  have "\<forall>d \<in> set [0..<10]. \<not> digit7 (digitChar d)" by code_simp
  then show "d < 10 \<Longrightarrow> \<not> digit7 (digitChar d)" by simp
qed

lemma showNat_ascii: "isAscii (showNat n)"
proof (induction n rule: showNat.induct)
  case (1 n)
  show ?case
  proof (cases "n < 10")
    case True
    then show ?thesis
      by (subst showNat.simps) (simp add: digitChar_ascii)
  next
    case False
    with "1" have "isAscii (showNat (n div 10))" by simp
    moreover have "\<not> digit7 (digitChar (n mod 10))" by (simp add: digitChar_ascii)
    ultimately show ?thesis using False
      by (subst showNat.simps) simp
  qed
qed

lemma update_entries: "set (AList.update k v al) \<subseteq> insert (k, v) (set al)"
  by (induction al) auto

lemma addDescription_entries:
  assumes "addDescription tc desc tg = Inr tg'"
    and "\<forall>(k, v) \<in> set tg. list_all isAscii v" and "isAscii desc"
  shows "\<forall>(k, v) \<in> set tg'. list_all isAscii v"
proof -
  have own: "list_all isAscii (setAdd descs desc)" if "map_of tg tc = Some descs" for descs
  proof -
    from that have "(tc, descs) \<in> set tg" by (rule map_of_SomeD)
    with assms(2) have "list_all isAscii descs" by auto
    with assms(3) show ?thesis by (simp add: setAdd_def)
  qed
  from assms(3) have fresh: "list_all isAscii (setAdd [] desc)" by (simp add: setAdd_def)
  from assms(1) obtain v where tg': "tg' = AList.update tc v tg" and v: "list_all isAscii v"
    using own fresh
    by (auto simp: addDescription_def getProperty_def split: option.splits if_splits)
  from update_entries [of tc v tg] assms(2) v show ?thesis
    unfolding tg' by auto
qed

lemma addDescriptions_entries:
  "addDescriptions tcs desc tg = Inr tg' \<Longrightarrow> \<forall>(k, v) \<in> set tg. list_all isAscii v \<Longrightarrow>
     isAscii desc \<Longrightarrow> \<forall>(k, v) \<in> set tg'. list_all isAscii v"
proof (induction tcs arbitrary: tg)
  case Nil
  then show ?case by simp
next
  case (Cons tc tcs)
  from Cons.prems(1) obtain tg1 where one: "addDescription tc desc tg = Inr tg1"
    and rest: "addDescriptions tcs desc tg1 = Inr tg'"
    by (auto split: sum.splits)
  from Cons.IH [OF rest addDescription_entries [OF one Cons.prems(2,3)] Cons.prems(3)]
  show ?case .
qed

lemma collectTaskGroups_entries:
  "collectTaskGroups perms tg = Inr tg' \<Longrightarrow> \<forall>(k, v) \<in> set tg. list_all isAscii v \<Longrightarrow>
     \<forall>p \<in> set perms. isAscii (descriptionOf p) \<Longrightarrow> \<forall>(k, v) \<in> set tg'. list_all isAscii v"
proof (induction perms arbitrary: tg)
  case Nil
  then show ?case by simp
next
  case (Cons p perms)
  from Cons.prems(1) obtain tg1
    where one: "addDescriptions (taskCategories p) (descriptionOf p) tg = Inr tg1"
    and rest: "collectTaskGroups perms tg1 = Inr tg'"
    by (auto split: sum.splits)
  from Cons.prems(3) have here: "isAscii (descriptionOf p)"
    and later: "\<forall>p \<in> set perms. isAscii (descriptionOf p)" by simp_all
  from Cons.IH [OF rest addDescriptions_entries [OF one Cons.prems(2) here] later]
  show ?case .
qed

lemma remainingBullets_ascii:
  assumes "\<forall>(k, v) \<in> set tg. list_all isAscii v"
  shows "list_all isAscii (remainingBullets tg)"
proof -
  have "set (objectEntries tg) \<subseteq> set tg"
    by (auto simp: objectEntries_def)
  with assms have "\<forall>(k, v) \<in> set (objectEntries tg). list_all isAscii v" by blast
  then have "list_all isAscii (take 1 v)" if "(k, v) \<in> set (objectEntries tg)" for k v
    using that by (fastforce simp: list_all_iff dest: in_set_takeD)
  then show ?thesis
    by (auto simp: remainingBullets_def list_all_iff)
qed

lemma taskBullets_ascii:
  assumes "subseq perms permissions" and "task \<in> set priorityTasks"
  shows "list_all isAscii (taskBullets perms task)"
proof -
  from assms(2) priorityTasks_ascii have t: "isAscii task" by (auto simp: list_all_iff)
  have "list_all isAscii (map description (sharingTask perms task))"
    using catalog_descriptionOf(2) [OF assms(1)] by (auto simp: list_all_iff sharingTask_def)
  with t showNat_ascii show ?thesis
    by (simp add: taskBullets_def)
qed

lemma generateCanDo_folds_ascii:
  assumes "subseq perms permissions" and "perms \<noteq> []"
  shows "\<exists>candidates. generateCanDo perms = Inr (take 6 (dedupe [] candidates))
     \<and> list_all isAscii candidates"
proof -
  have "\<forall>p \<in> set perms. \<forall>tc \<in> set (taskCategories p). tc \<notin> set objectPrototypeKeys"
    using catalog_descriptionOf(3) [OF assms(1)] by blast
  from collectTaskGroups_returns [OF this, of "[]"] obtain tg
    where tg: "collectTaskGroups perms [] = Inr tg" by blast
  have "\<forall>p \<in> set perms. isAscii (descriptionOf p)"
    using catalog_descriptionOf(1,2) [OF assms(1)] by simp
  from collectTaskGroups_entries [OF tg _ this]
  have entries: "\<forall>(k, v) \<in> set tg. list_all isAscii v" by simp
  have "list_all isAscii (concat (map (priorityBullets tg) priorityTasks))"
    using priorityBullets_taskBullets [OF assms(1) tg] taskBullets_ascii [OF assms(1)]
    by (auto simp: list_all_iff)
  with remainingBullets_ascii [OF entries]
  have "list_all isAscii (concat (map (priorityBullets tg) priorityTasks) @ remainingBullets tg)"
    by simp
  with tg assms(2) show ?thesis
    by (auto simp: generateCanDo_def Let_def)
qed

text \<open>
  Claim C8. The selections the engine is given are selections of the catalog, in
  catalog order. For every such selection \<open>generateCanDo\<close> returns a list. For the
  empty selection it is exactly the one placeholder bullet. Otherwise it is the first 6
  items of the case-insensitively deduplicated candidates, which start with the
  bullets of the priority task categories in priority order: for a category, a single
  summary \<open>{task} (N capabilities)\<close> when more than 2 permissions of the selection
  share it, and the descriptions of these at most 2 permissions otherwise. The result
  has no two items equal up to case and at most 6 items. Every candidate is an ASCII
  string (\<open>generateCanDo_folds_ascii\<close>), so the case folding is that of the code.
\<close>

theorem generateCanDo_bullets:
  assumes "subseq perms permissions"
  shows "\<exists>result. generateCanDo perms = Inr result
     \<and> (perms = [] \<longrightarrow> result = [''Access basic Dashboard features''])
     \<and> (perms \<noteq> [] \<longrightarrow>
          (\<exists>rest. result = take 6 (dedupe [] (concat (map (taskBullets perms) priorityTasks) @ rest))))
     \<and> distinct (map toLowerCase result) \<and> length result \<le> 6
     \<and> (\<forall>task \<in> set priorityTasks.
           (length (sharingTask perms task) > 2
              \<longrightarrow> taskBullets perms task
                    = [task @ '' ('' @ showNat (length (sharingTask perms task)) @ '' capabilities)''])
         \<and> (length (sharingTask perms task) \<le> 2
              \<longrightarrow> taskBullets perms task = map description (sharingTask perms task)
                  \<and> length (taskBullets perms task) \<le> 2))"
proof -
  have bullets: "\<forall>task \<in> set priorityTasks.
           (length (sharingTask perms task) > 2
              \<longrightarrow> taskBullets perms task
                    = [task @ '' ('' @ showNat (length (sharingTask perms task)) @ '' capabilities)''])
         \<and> (length (sharingTask perms task) \<le> 2
              \<longrightarrow> taskBullets perms task = map description (sharingTask perms task)
                  \<and> length (taskBullets perms task) \<le> 2)"
    by (simp add: taskBullets_def)
  show ?thesis
  proof (cases "perms = []")
    case True
    have "generateCanDo [] = Inr [''Access basic Dashboard features'']"
      by (simp add: generateCanDo_def)
    moreover have "distinct (map toLowerCase [''Access basic Dashboard features''])" by simp
    ultimately show ?thesis using True bullets by auto
  next
    case False
    have "\<forall>p \<in> set perms. \<forall>tc \<in> set (taskCategories p). tc \<notin> set objectPrototypeKeys"
      using catalog_descriptionOf(3) [OF assms] by blast
    from collectTaskGroups_returns [OF this, of "[]"] obtain tg
      where tg: "collectTaskGroups perms [] = Inr tg" by blast
    define result where
      "result = take 6 (dedupe [] (concat (map (priorityBullets tg) priorityTasks)
                                   @ remainingBullets tg))"
    from tg False have run: "generateCanDo perms = Inr result"
      by (simp add: generateCanDo_def Let_def result_def)
    have eq: "map (priorityBullets tg) priorityTasks = map (taskBullets perms) priorityTasks"
      by (rule map_cong [OF refl]) (rule priorityBullets_taskBullets [OF assms tg])
    have r: "result = take 6 (dedupe [] (concat (map (taskBullets perms) priorityTasks)
                                            @ remainingBullets tg))"
      unfolding result_def eq by (rule refl)
    have d: "distinct (map toLowerCase result)"
      unfolding r using dedupe_fresh by (intro distinct_lower_take) blast
    have l: "length result \<le> 6" by (simp add: r)
    from run r d l False bullets show ?thesis by blast
  qed
qed

theorem generateCanDo_bullets_witness:
  "subseq supportSelection permissions
   \<and> map apiName supportSelection
       = [''climate_operations'', ''dispute_operations'', ''charge_operations'',
          ''order_refund_operations'']
   \<and> generateCanDo supportSelection
       = Inr [''Climate orders'', ''Process charges and refunds'',
              ''Handle customer issues (3 capabilities)'', ''Manage disputes'']
   \<and> ''Handle customer issues'' \<in> set priorityTasks
   \<and> length (sharingTask supportSelection ''Handle customer issues'') = 3
   \<and> taskBullets supportSelection ''Handle customer issues''
       = [''Handle customer issues (3 capabilities)'']
   \<and> ''Process transactions'' \<in> set priorityTasks
   \<and> length (sharingTask supportSelection ''Process transactions'') = 2
   \<and> taskBullets supportSelection ''Process transactions''
       = [''Climate orders'', ''Process charges and refunds'']
   \<and> distinct (map toLowerCase [''Climate orders'', ''Process charges and refunds'',
              ''Handle customer issues (3 capabilities)'', ''Manage disputes''])"
proof -
  have sub: "subseq supportSelection permissions" by (simp add: supportSelection_def)
  have names: "map apiName supportSelection
       = [''climate_operations'', ''dispute_operations'', ''charge_operations'',
          ''order_refund_operations'']" by code_simp
  have r: "generateCanDo supportSelection
       = Inr [''Climate orders'', ''Process charges and refunds'',
              ''Handle customer issues (3 capabilities)'', ''Manage disputes'']" by code_simp
  have h: "''Handle customer issues'' \<in> set priorityTasks" by code_simp
  have t: "''Process transactions'' \<in> set priorityTasks" by code_simp
  have n: "length (sharingTask supportSelection ''Handle customer issues'') = 3" by code_simp
  have m: "length (sharingTask supportSelection ''Process transactions'') = 2" by code_simp
  have s: "showNat 3 = ''3''" by code_simp
  have d: "map description (sharingTask supportSelection ''Process transactions'')
       = [''Climate orders'', ''Process charges and refunds'']" by code_simp
  from generateCanDo_bullets [OF sub] obtain result
    where run: "generateCanDo supportSelection = Inr result"
    and dist: "distinct (map toLowerCase result)"
    and bullets: "\<forall>task \<in> set priorityTasks.
           (length (sharingTask supportSelection task) > 2
              \<longrightarrow> taskBullets supportSelection task
                    = [task @ '' ('' @ showNat (length (sharingTask supportSelection task))
                       @ '' capabilities)''])
         \<and> (length (sharingTask supportSelection task) \<le> 2
              \<longrightarrow> taskBullets supportSelection task
                    = map description (sharingTask supportSelection task)
                  \<and> length (taskBullets supportSelection task) \<le> 2)"
    by blast
  from run r have "result = [''Climate orders'', ''Process charges and refunds'',
              ''Handle customer issues (3 capabilities)'', ''Manage disputes'']" by simp
  with dist have dd: "distinct (map toLowerCase [''Climate orders'', ''Process charges and refunds'',
              ''Handle customer issues (3 capabilities)'', ''Manage disputes''])" by simp
  from bullets h n s have hb: "taskBullets supportSelection ''Handle customer issues''
       = [''Handle customer issues (3 capabilities)'']" by simp
  from bullets t m d have tb: "taskBullets supportSelection ''Process transactions''
       = [''Climate orders'', ''Process charges and refunds'']" by simp
  from sub names r h n hb t m tb dd show ?thesis by (intro conjI)
qed

end
